theory Spec2Isabelle
  imports Complex_Main "HOL-Library.Word" "HOL-Library.Char_ord" "HOL-Library.List_Lexorder"
begin

section \<open>Data model (types.go)\<close>

text \<open>
  A Go value of type \<open>any\<close> as \<open>encoding/json\<close> produces it: nil, bool, float64 (kept as
  its 64-bit pattern, no arithmetic is done on it), string, \<open>[]any\<close> and
  \<open>map[string]any\<close> (a list of entries, each key once); and what the program itself
  stores in a request body: an \<open>int\<close>, and a struct (its fields under their JSON names,
  in the order of the declaration).
\<close>

datatype any =
    ANil
  | ABool bool
  | AFloat64 "64 word"
  | AInt "64 word"
  | AString string
  | ASlice "any list"
  | AMap "(string \<times> any) list"
  | AStruct "(string \<times> any) list"

text \<open>
  A struct field of type \<open>map[string]any\<close>: \<open>None\<close> is the nil map, \<open>Some kvs\<close> a
  map with the entries \<open>kvs\<close>. Reading a key of a nil map is allowed in Go and finds nothing.
\<close>

type_synonym gomap = "(string \<times> any) list option"

definition lookup :: "gomap \<Rightarrow> string \<Rightarrow> any option" where
  "lookup m k = (case m of None \<Rightarrow> None | Some kvs \<Rightarrow> map_of kvs k)"

text \<open>The type assertion \<open>m[k].(string)\<close>: it holds only for a present string value.\<close>

definition asString :: "any option \<Rightarrow> string option" where
  "asString v = (case v of Some (AString s) \<Rightarrow> Some s | _ \<Rightarrow> None)"

text \<open>Go's \<open>int\<close> and \<open>int64\<close> on a 64-bit platform.\<close>

type_synonym int64 = "64 word"

record PaymentOption =
  Scheme :: string
  Network :: string
  Amount :: string
  Asset :: string
  PayTo :: string
  MaxTimeoutSeconds :: int64
  Extra :: gomap

record ResourceInfo =
  URL :: string
  Description :: string
  MimeType :: string

record PaymentRequirement =
  X402Version :: int64
  Accepts :: "PaymentOption list"
  Resource :: ResourceInfo
  Extensions :: gomap

record TransferAuthorization =
  From :: string
  To :: string
  Value :: string
  ValidAfter :: string
  ValidBefore :: string
  Nonce :: string

record PaymentData =
  Signature :: string
  Authorization :: TransferAuthorization

record PaymentPayload =
  X402Version :: int64
  Resource :: ResourceInfo
  Accepted :: PaymentOption
  Payload :: PaymentData
  Extensions :: gomap

text \<open>
  The error values of the package (\<open>APIError\<close>, \<open>PaymentError\<close>, \<open>ValidationError\<close>),
  the untyped errors made by \<open>fmt.Errorf\<close>, and a run-time panic.
\<close>

datatype error =
    ValidationError string string
  | PaymentError string
  | APIError int string
  | Errorf string
  | Panic string

section \<open>Decimal numerals (strconv, math/big)\<close>

definition isDigit :: "char \<Rightarrow> bool" where
  "isDigit c = (48 \<le> (of_char c :: nat) \<and> (of_char c :: nat) \<le> 57)"

definition digitChar :: "nat \<Rightarrow> char" where
  "digitChar d = char_of (48 + d)"

definition digitVal :: "char \<Rightarrow> nat" where
  "digitVal c = (of_char c :: nat) - 48"

text \<open>The decimal digits of a natural number, most significant first, no leading zero.\<close>

fun decimal :: "nat \<Rightarrow> string" where
  "decimal n = (if n < 10 then [digitChar n] else decimal (n div 10) @ [digitChar (n mod 10)])"

declare decimal.simps [simp del]

text \<open>The value of a digit string, read left to right.\<close>

definition digitsVal :: "string \<Rightarrow> nat" where
  "digitsVal ds = foldl (\<lambda>acc c. 10 * acc + digitVal c) 0 ds"

text \<open>\<open>big.Int.String()\<close> and \<open>strconv.FormatInt(v, 10)\<close>: a minus sign for negatives.\<close>

definition bigString :: "int \<Rightarrow> string" where
  "bigString i = (if i < 0 then CHR ''-'' # decimal (nat (- i)) else decimal (nat i))"

definition FormatInt :: "int64 \<Rightarrow> string" where
  "FormatInt v = bigString (sint v)"

text \<open>
  \<open>new(big.Int).SetString(s, 10)\<close>: an optional sign, then at least one decimal digit,
  and nothing else (underscores are accepted for base 0 only). \<open>None\<close> is \<open>ok = false\<close>.
\<close>

definition SetString10 :: "string \<Rightarrow> int option" where
  "SetString10 s =
     (let (neg, ds) = (case s of
                         c # r \<Rightarrow> if c = CHR ''-'' then (True, r)
                                  else if c = CHR ''+'' then (False, r)
                                  else (False, s)
                       | [] \<Rightarrow> (False, s))
      in if ds \<noteq> [] \<and> list_all isDigit ds
         then Some (if neg then - int (digitsVal ds) else int (digitsVal ds))
         else None)"

section \<open>Choosing a payment option (x402.go)\<close>

text \<open>Indexing a slice: out of range is a run-time panic.\<close>

definition index :: "'a list \<Rightarrow> nat \<Rightarrow> error + 'a" where
  "index xs i = (if i < length xs then Inr (xs ! i) else Inl (Panic ''index out of range''))"

text \<open>
  \<open>ExtractPaymentDetails\<close>, on the requirement its pointer argument refers to. The local
  \<open>option\<close> is a copy of the first element; the legacy amount is written to the copy.
\<close>

definition ExtractPaymentDetails :: "PaymentRequirement \<Rightarrow> error + PaymentOption" where
  "ExtractPaymentDetails req =
     (if length (Accepts req) = 0
      then Inl (Errorf ''no payment options in payment required response'')
      else case index (Accepts req) 0 of
             Inl e \<Rightarrow> Inl e
           | Inr option \<Rightarrow>
               let option1 =
                     (if Amount option = ''''
                      then (case asString (lookup (Extra option) ''maxAmountRequired'') of
                              Some extra \<Rightarrow> option\<lparr>Amount := extra\<rparr>
                            | None \<Rightarrow> option)
                      else option)
               in if Amount option1 = ''''
                  then Inl (Errorf ''no amount found in payment requirements'')
                  else Inr option1)"

text \<open>The amount the function resolves for an option: the field, else the legacy entry.\<close>

definition resolvedAmount :: "PaymentOption \<Rightarrow> string" where
  "resolvedAmount opt =
     (if Amount opt \<noteq> '''' then Amount opt
      else case lookup (Extra opt) ''maxAmountRequired'' of
             Some (AString s) \<Rightarrow> s
           | _ \<Rightarrow> '''')"

text \<open>Example requirements: no option, a v2 option, a legacy v1 option, an option without amount.\<close>

definition exampleOption :: "string \<Rightarrow> gomap \<Rightarrow> PaymentOption" where
  "exampleOption amount extra =
     \<lparr>Scheme = ''exact'', Network = ''eip155:8453'', Amount = amount,
      Asset = ''0x833589fCD6eDb6E08f4c7C32D4f71b54bdA02913'',
      PayTo = ''0x1234567890123456789012345678901234567890'',
      MaxTimeoutSeconds = 300, Extra = extra\<rparr>"

definition exampleRequirement :: "PaymentOption list \<Rightarrow> PaymentRequirement" where
  "exampleRequirement opts =
     \<lparr>PaymentRequirement.X402Version = 2, Accepts = opts,
      Resource = \<lparr>URL = ''https://blockrun.ai/api/v1/chat/completions'',
                  Description = ''Test resource'', MimeType = ''application/json''\<rparr>,
      Extensions = None\<rparr>"

section \<open>The same function on memory\<close>

text \<open>
  To state what the call writes, the options live in memory cells: \<open>cells\<close> gives the
  content of every address and the addresses below \<open>nextFree\<close> are allocated. The slice
  \<open>req.Accepts\<close> is the list of the addresses of its elements. The local variable
  \<open>option\<close> has its address taken by \<open>return &option\<close>, so it is a new cell; the
  assignment \<open>option := req.Accepts[0]\<close> copies the struct into it and
  \<open>option.Amount = extra\<close> writes to that cell. The map under \<open>Extra\<close> is only read.
\<close>

type_synonym addr = nat

record memory =
  cells :: "addr \<Rightarrow> PaymentOption"
  nextFree :: addr

definition store :: "memory \<Rightarrow> addr \<Rightarrow> PaymentOption \<Rightarrow> memory" where
  "store h p v = h\<lparr>cells := (cells h)(p := v)\<rparr>"

definition alloc :: "memory \<Rightarrow> PaymentOption \<Rightarrow> memory \<times> addr" where
  "alloc h v = (h\<lparr>cells := (cells h)(nextFree h := v), nextFree := nextFree h + 1\<rparr>, nextFree h)"

definition ExtractPaymentDetails_mem :: "memory \<Rightarrow> addr list \<Rightarrow> memory \<times> (error + addr)" where
  "ExtractPaymentDetails_mem h accepts =
     (if length accepts = 0
      then (h, Inl (Errorf ''no payment options in payment required response''))
      else case index accepts 0 of
             Inl e \<Rightarrow> (h, Inl e)
           | Inr a \<Rightarrow>
               let (h1, option) = alloc h (cells h a);
                   h2 = (if Amount (cells h1 option) = ''''
                         then (case asString (lookup (Extra (cells h1 option)) ''maxAmountRequired'') of
                                 Some extra \<Rightarrow> store h1 option ((cells h1 option)\<lparr>Amount := extra\<rparr>)
                               | None \<Rightarrow> h1)
                         else h1)
               in if Amount (cells h2 option) = ''''
                  then (h2, Inl (Errorf ''no amount found in payment requirements''))
                  else (h2, Inr option))"

text \<open>The requirement a pointer refers to, read from memory.\<close>

definition readRequirement ::
  "memory \<Rightarrow> int64 \<Rightarrow> addr list \<Rightarrow> ResourceInfo \<Rightarrow> gomap \<Rightarrow> PaymentRequirement" where
  "readRequirement h v accepts res ext =
     \<lparr>PaymentRequirement.X402Version = v, Accepts = map (cells h) accepts,
      Resource = res, Extensions = ext\<rparr>"

definition exampleMemory :: memory where
  "exampleMemory =
     \<lparr>cells = (\<lambda>a. if a = 0
                     then exampleOption '''' (Some [(''maxAmountRequired'', AString ''250'')])
                     else exampleOption ''7'' None),
      nextFree = 2\<rparr>"

section \<open>Bytes, hexadecimal and base64 (encoding/hex, encoding/base64)\<close>

type_synonym byte = "8 word"

definition hexChar :: "nat \<Rightarrow> char" where
  "hexChar d = (if d < 10 then char_of (48 + d) else char_of (87 + d))"

text \<open>\<open>common.Bytes2Hex\<close>: two lower-case hexadecimal digits for every byte.\<close>

definition Bytes2Hex :: "byte list \<Rightarrow> string" where
  "Bytes2Hex bs = concat (map (\<lambda>b. [hexChar (unat b div 16), hexChar (unat b mod 16)]) bs)"

text \<open>The alphabet of \<open>base64.StdEncoding\<close>: A-Z, a-z, 0-9, plus and slash; padding \<open>=\<close>.\<close>

definition b64char :: "nat \<Rightarrow> char" where
  "b64char i =
     (if i < 26 then char_of (65 + i)
      else if i < 52 then char_of (71 + i)
      else if i < 62 then char_of (i - 4)
      else if i = 62 then CHR ''+''
      else CHR ''/'')"

definition b64val :: "char \<Rightarrow> nat option" where
  "b64val c =
     (let n = (of_char c :: nat)
      in if 65 \<le> n \<and> n \<le> 90 then Some (n - 65)
         else if 97 \<le> n \<and> n \<le> 122 then Some (n - 71)
         else if 48 \<le> n \<and> n \<le> 57 then Some (n + 4)
         else if c = CHR ''+'' then Some 62
         else if c = CHR ''/'' then Some 63
         else None)"

text \<open>Three bytes make four characters; one or two bytes left over are padded.\<close>

fun b64enc :: "nat list \<Rightarrow> string" where
  "b64enc (a # b # c # r) =
     [b64char (a div 4), b64char ((a mod 4) * 16 + b div 16),
      b64char ((b mod 16) * 4 + c div 64), b64char (c mod 64)] @ b64enc r"
| "b64enc [a, b] =
     [b64char (a div 4), b64char ((a mod 4) * 16 + b div 16), b64char ((b mod 16) * 4), CHR ''='']"
| "b64enc [a] = [b64char (a div 4), b64char ((a mod 4) * 16), CHR ''='', CHR ''='']"
| "b64enc [] = []"

definition EncodeToString :: "string \<Rightarrow> string" where
  "EncodeToString src = b64enc (map of_char src)"

text \<open>
  Decoding, as \<open>decodeQuantum\<close> does it, four characters at a time. Carriage returns and
  line feeds are skipped wherever they stand, so the function works on the other
  characters, each with its position in the source; \<open>n\<close> is the length of the source.
  \<open>Inl i\<close> is \<open>CorruptInputError(i)\<close>: the position of a character outside the
  alphabet or of a misplaced padding character, the place where the input is cut short,
  or that of the first character after the padding. Padding is accepted in the last group
  only. (\<open>StdEncoding\<close> is not strict: the unused bits of a padded group are not checked.)
\<close>

fun b64dec :: "nat \<Rightarrow> (char \<times> nat) list \<Rightarrow> nat + nat list" where
  "b64dec n [] = Inr []"
| "b64dec n ((c1, i1) # r1) =
     (case b64val c1 of
        None \<Rightarrow> Inl i1
      | Some v1 \<Rightarrow>
     (case r1 of
        [] \<Rightarrow> Inl (n - 1)
      | (c2, i2) # r2 \<Rightarrow>
     (case b64val c2 of
        None \<Rightarrow> Inl i2
      | Some v2 \<Rightarrow>
     (case r2 of
        [] \<Rightarrow> Inl (n - 2)
      | (c3, i3) # r3 \<Rightarrow>
     (case b64val c3 of
        None \<Rightarrow>
          if c3 \<noteq> CHR ''='' then Inl i3
          else (case r3 of
                  [] \<Rightarrow> Inl n
                | (c4, i4) # r4 \<Rightarrow>
                    if c4 \<noteq> CHR ''='' then Inl (i4 - 1)
                    else (case r4 of
                            [] \<Rightarrow> Inr [v1 * 4 + v2 div 16]
                          | (c5, i5) # r5 \<Rightarrow> Inl i5))
      | Some v3 \<Rightarrow>
     (case r3 of
        [] \<Rightarrow> Inl (n - 3)
      | (c4, i4) # r4 \<Rightarrow>
     (case b64val c4 of
        None \<Rightarrow>
          if c4 \<noteq> CHR ''='' then Inl i4
          else (case r4 of
                  [] \<Rightarrow> Inr [v1 * 4 + v2 div 16, (v2 mod 16) * 16 + v3 div 4]
                | (c5, i5) # r5 \<Rightarrow> Inl i5)
      | Some v4 \<Rightarrow>
          (case b64dec n r4 of
             Inl e \<Rightarrow> Inl e
           | Inr bs \<Rightarrow>
               Inr ([v1 * 4 + v2 div 16, (v2 mod 16) * 16 + v3 div 4, (v3 mod 4) * 64 + v4]
                    @ bs)))))))))"

text \<open>
  \<open>base64.StdEncoding.DecodeString\<close>; \<open>Inl\<close> is the text of the error, which names the
  position.
\<close>

definition DecodeString :: "string \<Rightarrow> string + string" where
  "DecodeString s =
     (case b64dec (length s)
             (filter (\<lambda>ci. fst ci \<noteq> CHR 0x0D \<and> fst ci \<noteq> CHR 0x0A) (zip s [0..<length s])) of
        Inl i \<Rightarrow> Inl (''illegal base64 data at input byte '' @ decimal i)
      | Inr bs \<Rightarrow> Inr (map char_of bs))"

section \<open>The typed data and its hash (go-ethereum, apitypes)\<close>

record TypedDataDomain =
  Name :: string
  Version :: string
  ChainId :: int
  VerifyingContract :: string

text \<open>The message map of \<open>TransferWithAuthorization\<close>, one field for each key.\<close>

record TypedDataMessage =
  msgFrom :: string
  msgTo :: string
  msgValue :: string
  msgValidAfter :: string
  msgValidBefore :: string
  msgNonce :: string

definition isHexDigit :: "char \<Rightarrow> bool" where
  "isHexDigit c =
     (let n = (of_char c :: nat)
      in (48 \<le> n \<and> n \<le> 57) \<or> (97 \<le> n \<and> n \<le> 102) \<or> (65 \<le> n \<and> n \<le> 70))"

definition hexDigitVal :: "char \<Rightarrow> nat" where
  "hexDigitVal c =
     (let n = (of_char c :: nat)
      in if n \<le> 57 then n - 48 else if 97 \<le> n then n - 87 else n - 55)"

text \<open>\<open>new(big.Int).SetString(s, 16)\<close>.\<close>

definition SetString16 :: "string \<Rightarrow> int option" where
  "SetString16 s =
     (let (neg, ds) = (case s of
                         c # r \<Rightarrow> if c = CHR ''-'' then (True, r)
                                  else if c = CHR ''+'' then (False, r)
                                  else (False, s)
                       | [] \<Rightarrow> (False, s));
          v = foldl (\<lambda>acc c. 16 * acc + hexDigitVal c) 0 ds
      in if ds \<noteq> [] \<and> list_all isHexDigit ds
         then Some (if neg then - int v else int v)
         else None)"

text \<open>
  \<open>math.ParseBig256\<close>: the empty string is zero, a \<open>0x\<close> prefix reads hexadecimal,
  anything else decimal; a value of more than 256 bits is refused.
\<close>

definition ParseBig256 :: "string \<Rightarrow> int option" where
  "ParseBig256 s =
     (if s = '''' then Some 0
      else case (if take 2 s = ''0x'' \<or> take 2 s = ''0X''
                 then SetString16 (drop 2 s) else SetString10 s) of
             None \<Rightarrow> None
           | Some b \<Rightarrow> if \<bar>b\<bar> < 2 ^ 256 then Some b else None)"

text \<open>
  \<open>parseInteger\<close> for a string under the type \<open>uint256\<close>: the value must parse and
  must not be negative. The first message quotes the text with \<open>%q\<close>, which for a text of
  digits puts it between double quotes; the second has the type between apostrophes.
\<close>

definition parseInteger_uint256 :: "string \<Rightarrow> string + int" where
  "parseInteger_uint256 v =
     (case ParseBig256 v of
        None \<Rightarrow> Inl (''invalid hex or decimal integer '' @ [CHR 0x22] @ v @ [CHR 0x22])
      | Some b \<Rightarrow>
          if b < 0
          then Inl (''invalid negative value for type '' @ [CHR 0x27] @ ''uint256'' @ [CHR 0x27])
          else Inr b)"

text \<open>\<open>math.U256Bytes\<close>: the 32 bytes of a number below \<open>2 ^ 256\<close>, big end first.\<close>

definition U256Bytes :: "int \<Rightarrow> byte list" where
  "U256Bytes b = map (\<lambda>i. word_of_int (b div 256 ^ (31 - i))) [0..<32]"

section \<open>What a payment reads from outside\<close>

text \<open>
  The key, the clock, the entropy source, the hash and signature primitives and the JSON
  encoder of the payload are parameters. \<open>Inl\<close> carries the text of a library error.
  \<open>encodeAddress\<close> and \<open>encodeBytes32\<close> are the encodings of a field of type
  \<open>address\<close> and of type \<open>bytes32\<close> (an error for a text that is no such value);
  \<open>HashStruct_domain\<close> is \<open>HashStruct\<close> on the domain.
\<close>

record 'k crypto =
  PubkeyToAddressHex :: "'k \<Rightarrow> string"
  Now :: int64
  randRead :: "string + byte list"
  HashStruct_domain :: "TypedDataDomain \<Rightarrow> string + byte list"
  encodeAddress :: "string \<Rightarrow> string + byte list"
  encodeBytes32 :: "string \<Rightarrow> string + byte list"
  Keccak256 :: "byte list \<Rightarrow> byte list"
  Sign :: "byte list \<Rightarrow> 'k \<Rightarrow> string + byte list"
  jsonMarshal_PaymentPayload :: "PaymentPayload \<Rightarrow> string + string"

text \<open>The type of the message as \<open>EncodeType\<close> writes it; its hash is the type hash.\<close>

definition encodeType_message :: string where
  "encodeType_message =
     ''TransferWithAuthorization(address from,address to,uint256 value,''
     @ ''uint256 validAfter,uint256 validBefore,bytes32 nonce)''"

text \<open>
  \<open>HashStruct\<close> on the message: the fields are encoded in the order of the type, the
  first error ends the call, and the hash is taken of the type hash followed by the
  encoded fields.
\<close>

definition HashStruct_message :: "'k crypto \<Rightarrow> TypedDataMessage \<Rightarrow> string + byte list" where
  "HashStruct_message cr m =
     (case encodeAddress cr (msgFrom m) of
        Inl e \<Rightarrow> Inl e
      | Inr encFrom \<Rightarrow>
     (case encodeAddress cr (msgTo m) of
        Inl e \<Rightarrow> Inl e
      | Inr encTo \<Rightarrow>
     (case parseInteger_uint256 (msgValue m) of
        Inl e \<Rightarrow> Inl e
      | Inr v \<Rightarrow>
     (case parseInteger_uint256 (msgValidAfter m) of
        Inl e \<Rightarrow> Inl e
      | Inr va \<Rightarrow>
     (case parseInteger_uint256 (msgValidBefore m) of
        Inl e \<Rightarrow> Inl e
      | Inr vb \<Rightarrow>
     (case encodeBytes32 cr (msgNonce m) of
        Inl e \<Rightarrow> Inl e
      | Inr encNonce \<Rightarrow>
          Inr (Keccak256 cr
                 (Keccak256 cr (map of_char encodeType_message) @ encFrom @ encTo
                  @ U256Bytes v @ U256Bytes va @ U256Bytes vb @ encNonce))))))))"

section \<open>Building and signing the payload (x402.go)\<close>

definition BaseChainID :: int where
  "BaseChainID = 8453"

definition USDCBase :: string where
  "USDCBase = ''0x833589fCD6eDb6E08f4c7C32D4f71b54bdA02913''"

definition createNonce :: "'k crypto \<Rightarrow> error + string" where
  "createNonce cr =
     (case randRead cr of
        Inl err \<Rightarrow> Inl (Errorf (''failed to generate nonce: '' @ err))
      | Inr nonce \<Rightarrow> Inr (''0x'' @ Bytes2Hex nonce))"

text \<open>The token name and version: the defaults, replaced by string entries of \<open>extra\<close>.\<close>

definition usdcName :: "gomap \<Rightarrow> string" where
  "usdcName extra =
     (if extra \<noteq> None
      then (case asString (lookup extra ''name'') of Some name \<Rightarrow> name | None \<Rightarrow> ''USD Coin'')
      else ''USD Coin'')"

definition usdcVersion :: "gomap \<Rightarrow> string" where
  "usdcVersion extra =
     (if extra \<noteq> None
      then (case asString (lookup extra ''version'') of Some version \<Rightarrow> version | None \<Rightarrow> ''2'')
      else ''2'')"

text \<open>The recovery byte: \<open>if signature[64] < 27 { signature[64] += 27 }\<close>.\<close>

definition fixV :: "byte list \<Rightarrow> error + byte list" where
  "fixV signature =
     (case index signature 64 of
        Inl e \<Rightarrow> Inl e
      | Inr v \<Rightarrow> Inr (if v < 27 then signature[64 := v + 27] else signature))"

text \<open>
  \<open>CreatePaymentPayload\<close> up to the payload value (lines 54 to 183): the timestamps, the
  nonce, the amount check, the typed data, its hash and signature, the payload.
\<close>

definition buildPayload ::
  "'k crypto \<Rightarrow> 'k \<Rightarrow> string \<Rightarrow> string \<Rightarrow> string \<Rightarrow> string \<Rightarrow> string \<Rightarrow> int64 \<Rightarrow> gomap \<Rightarrow> gomap
   \<Rightarrow> error + PaymentPayload" where
  "buildPayload cr privateKey recipient amount network resourceURL resourceDescription
                maxTimeoutSeconds extra extensions =
     (let walletAddress = PubkeyToAddressHex cr privateKey;
          now = Now cr;
          validAfter = now - 600;
          validBefore = now + maxTimeoutSeconds
      in case createNonce cr of
           Inl err \<Rightarrow> Inl err
         | Inr nonce \<Rightarrow>
      (case SetString10 amount of
           None \<Rightarrow> Inl (Errorf (''invalid amount: '' @ amount))
         | Some amountBig \<Rightarrow>
      let domain = \<lparr>Name = usdcName extra, Version = usdcVersion extra,
                    ChainId = BaseChainID, VerifyingContract = USDCBase\<rparr>;
          message = \<lparr>msgFrom = walletAddress, msgTo = recipient,
                     msgValue = bigString amountBig,
                     msgValidAfter = bigString (sint validAfter),
                     msgValidBefore = bigString (sint validBefore),
                     msgNonce = nonce\<rparr>
      in case HashStruct_domain cr domain of
           Inl err \<Rightarrow> Inl (Errorf (''failed to hash domain: '' @ err))
         | Inr domainSeparator \<Rightarrow>
      (case HashStruct_message cr message of
           Inl err \<Rightarrow> Inl (Errorf (''failed to hash message: '' @ err))
         | Inr messageHash \<Rightarrow>
      let rawData = ([0x19, 0x01] @ domainSeparator) @ messageHash;
          hash = Keccak256 cr rawData
      in case Sign cr hash privateKey of
           Inl err \<Rightarrow> Inl (Errorf (''failed to sign: '' @ err))
         | Inr signature0 \<Rightarrow>
      (case fixV signature0 of
           Inl err \<Rightarrow> Inl err
         | Inr signature \<Rightarrow>
      let responseExtra = Some [(''name'', AString (usdcName extra)),
                                (''version'', AString (usdcVersion extra))]
      in Inr \<lparr>PaymentPayload.X402Version = 2,
              Resource = \<lparr>URL = resourceURL, Description = resourceDescription,
                          MimeType = ''application/json''\<rparr>,
              Accepted = \<lparr>Scheme = ''exact'', Network = network, Amount = amount,
                          Asset = USDCBase, PayTo = recipient,
                          MaxTimeoutSeconds = maxTimeoutSeconds, Extra = responseExtra\<rparr>,
              Payload = \<lparr>Signature = ''0x'' @ Bytes2Hex signature,
                         Authorization = \<lparr>From = walletAddress, To = recipient, Value = amount,
                                           ValidAfter = FormatInt validAfter,
                                           ValidBefore = FormatInt validBefore,
                                           Nonce = nonce\<rparr>\<rparr>,
              Extensions = extensions\<rparr>))))"

text \<open>The whole function: the payload as JSON, then base64.\<close>

definition CreatePaymentPayload ::
  "'k crypto \<Rightarrow> 'k \<Rightarrow> string \<Rightarrow> string \<Rightarrow> string \<Rightarrow> string \<Rightarrow> string \<Rightarrow> int64 \<Rightarrow> gomap \<Rightarrow> gomap
   \<Rightarrow> error + string" where
  "CreatePaymentPayload cr privateKey recipient amount network resourceURL resourceDescription
                        maxTimeoutSeconds extra extensions =
     (case buildPayload cr privateKey recipient amount network resourceURL resourceDescription
                        maxTimeoutSeconds extra extensions of
        Inl err \<Rightarrow> Inl err
      | Inr payload \<Rightarrow>
          (case jsonMarshal_PaymentPayload cr payload of
             Inl err \<Rightarrow> Inl (Errorf (''failed to marshal payload: '' @ err))
           | Inr jsonData \<Rightarrow> Inr (EncodeToString jsonData)))"

text \<open>
  An example of the outside world, for evaluating the definitions: a fixed clock, fixed
  entropy, and stand-ins for the hash, the signature and the JSON encoder.
\<close>

definition exampleCrypto :: "unit crypto" where
  "exampleCrypto =
     \<lparr>PubkeyToAddressHex = (\<lambda>_. ''0xf39Fd6e51aad88F6F4ce6aB8827279cffFb92266''),
      Now = 1700000000,
      randRead = Inr (replicate 32 0x11),
      HashStruct_domain = (\<lambda>_. Inr (replicate 32 0x22)),
      encodeAddress = (\<lambda>_. Inr (replicate 32 0x33)),
      encodeBytes32 = (\<lambda>_. Inr (replicate 32 0x44)),
      Keccak256 = (\<lambda>bs. take 32 bs),
      Sign = (\<lambda>h _. Inr (h @ h @ [1])),
      jsonMarshal_PaymentPayload = (\<lambda>p. Inr (''{}''))\<rparr>"

text \<open>
  The spec's "base-10 integer string", in its own words: an optional sign followed by
  at least one decimal digit; \<open>n\<close> is the value it denotes.
\<close>

definition base10Integer :: "string \<Rightarrow> int \<Rightarrow> bool" where
  "base10Integer s n =
     (\<exists>ds. ds \<noteq> [] \<and> list_all isDigit ds
           \<and> ((s = ds \<or> s = CHR ''+'' # ds) \<and> n = int (digitsVal ds)
                \<or> s = CHR ''-'' # ds \<and> n = - int (digitsVal ds)))"

text \<open>The call of \<open>CreatePaymentPayload\<close> that \<open>handlePaymentAndRetry\<close> makes for an option.\<close>

definition payloadForOption ::
  "'k crypto \<Rightarrow> 'k \<Rightarrow> PaymentOption \<Rightarrow> string \<Rightarrow> string \<Rightarrow> gomap \<Rightarrow> error + PaymentPayload" where
  "payloadForOption cr privateKey paymentOption resourceURL description extensions =
     buildPayload cr privateKey (PayTo paymentOption) (Amount paymentOption)
       (Network paymentOption) resourceURL description
       (MaxTimeoutSeconds paymentOption) (Extra paymentOption) extensions"

text \<open>An option for another scheme and another token, and one naming its token.\<close>

definition otherAssetOption :: PaymentOption where
  "otherAssetOption =
     \<lparr>Scheme = ''upto'', Network = ''eip155:8453'', Amount = ''500000'',
      Asset = ''0x0000000000000000000000000000000000000001'',
      PayTo = ''0x1234567890123456789012345678901234567890'',
      MaxTimeoutSeconds = 300, Extra = None\<rparr>"

definition namedTokenOption :: PaymentOption where
  "namedTokenOption =
     \<lparr>Scheme = ''exact'', Network = ''eip155:8453'', Amount = ''500000'',
      Asset = ''0x833589fCD6eDb6E08f4c7C32D4f71b54bdA02913'',
      PayTo = ''0x1234567890123456789012345678901234567890'',
      MaxTimeoutSeconds = 300,
      Extra = Some [(''name'', AString ''USDC''), (''version'', AString ''2'')]\<rparr>"

section \<open>The client and what it reads from outside (client.go)\<close>

record request =
  Method :: string
  reqURL :: string
  reqBody :: string
  reqHeader :: "(string \<times> string) list"

text \<open>
  A response as the client reads it: the status code, \<open>Header.Get\<close> (the empty string
  for an absent header) and the bytes of the body.
\<close>

record response =
  StatusCode :: int
  HeaderGet :: "string \<Rightarrow> string"
  Body :: string

text \<open>
  \<open>sessionTotalUSD\<close> is a \<open>float64\<close> in the source. It is kept here as the rational
  number it stands for and the operations on it are exact, where \<open>float64\<close> rounds.
\<close>

record 'k LLMClient =
  privateKey :: 'k
  address :: string
  apiURL :: string
  sessionTotalUSD :: rat
  sessionCalls :: int64



text \<open>
  The outside world of a call. \<open>Do\<close> is \<open>httpClient.Do\<close>: its answer may depend on
  the requests sent before; \<open>Inl\<close> is a transport error. \<open>urlError\<close> is the error of
  \<open>http.NewRequest\<close> for a URL, if any. The JSON functions are those of
  \<open>encoding/json\<close>: \<open>jsonMarshal\<close> on a value, \<open>jsonDecode_map\<close> into a
  \<open>map[string]any\<close>, \<open>jsonUnmarshal_PaymentRequirement\<close> into the struct and
  \<open>jsonDecode_response\<close> into the response type \<open>'r\<close> of the endpoint.
\<close>

record ('k, 'r) world =
  Crypto :: "'k crypto"
  Do :: "request list \<Rightarrow> request \<Rightarrow> string + response"
  urlError :: "string \<Rightarrow> string option"
  jsonMarshal :: "any \<Rightarrow> string + string"
  jsonDecode_map :: "string \<Rightarrow> string + gomap"
  jsonUnmarshal_PaymentRequirement :: "string \<Rightarrow> string + PaymentRequirement"
  jsonDecode_response :: "string \<Rightarrow> string + 'r"

text \<open>The \<open>Error()\<close> methods of types.go, as \<open>%v\<close> prints an error.\<close>

fun Error :: "error \<Rightarrow> string" where
  "Error (ValidationError field msg) = ''Validation error for '' @ field @ '': '' @ msg"
| "Error (PaymentError msg) = ''Payment error: '' @ msg"
| "Error (APIError code msg) =
     ''BlockRun API error (status '' @ bigString code @ ''): '' @ msg"
| "Error (Errorf msg) = msg"
| "Error (Panic msg) = msg"

text \<open>
  \<open>if err != nil { return nil, &PaymentError{...} }\<close>: an error value is wrapped; a
  panic is no error value and goes on up the stack.
\<close>

definition asPaymentError :: "string \<Rightarrow> error \<Rightarrow> error" where
  "asPaymentError prefix err =
     (case err of Panic msg \<Rightarrow> Panic msg | _ \<Rightarrow> PaymentError (prefix @ Error err))"

definition NewRequest :: "('k, 'r) world \<Rightarrow> string \<Rightarrow> string \<Rightarrow> string \<Rightarrow> string + request" where
  "NewRequest w method url body =
     (case urlError w url of
        Some err \<Rightarrow> Inl err
      | None \<Rightarrow> Inr \<lparr>Method = method, reqURL = url, reqBody = body, reqHeader = []\<rparr>)"

text \<open>\<open>req.Header.Set(key, value)\<close> replaces the values of the key.\<close>

definition HeaderSet :: "request \<Rightarrow> string \<Rightarrow> string \<Rightarrow> request" where
  "HeaderSet req k v = req\<lparr>reqHeader := filter (\<lambda>kv. fst kv \<noteq> k) (reqHeader req) @ [(k, v)]\<rparr>"

definition ParsePaymentRequired :: "('k, 'r) world \<Rightarrow> string \<Rightarrow> error + PaymentRequirement" where
  "ParsePaymentRequired w headerValue =
     (case DecodeString headerValue of
        Inl err \<Rightarrow> Inl (Errorf (''failed to decode payment required header: '' @ err))
      | Inr decoded \<Rightarrow>
          (case jsonUnmarshal_PaymentRequirement w decoded of
             Inl err \<Rightarrow> Inl (Errorf (''failed to parse payment required: '' @ err))
           | Inr req \<Rightarrow> Inr req))"

text \<open>
  \<open>fmt.Sscanf(amountStr, "%f", &amountMicro)\<close> on the strings that reach it: the amount
  has passed \<open>SetString\<close> in \<open>CreatePaymentPayload\<close>, so it is a signed digit string,
  and the scan reads its value. Other strings do not reach this line.
\<close>

definition Sscanf_f :: "string \<Rightarrow> rat option" where
  "Sscanf_f s = map_option of_int (SetString10 s)"

text \<open>The payment header of a 402 response: the header, else the body read and encoded again.\<close>

definition paymentHeaderOf :: "('k, 'r) world \<Rightarrow> response \<Rightarrow> string" where
  "paymentHeaderOf w resp =
     (let paymentHeader = HeaderGet resp ''payment-required''
      in if paymentHeader = ''''
         then (case jsonDecode_map w (Body resp) of
                 Inl err \<Rightarrow> paymentHeader
               | Inr None \<Rightarrow> paymentHeader
               | Inr (Some respBody) \<Rightarrow>
                   if map_of respBody ''x402'' \<noteq> None
                   then (case jsonMarshal w (AMap respBody) of
                           Inl err \<Rightarrow> ''''
                         | Inr jsonBytes \<Rightarrow> jsonBytes)
                   else paymentHeader)
         else paymentHeader)"

text \<open>The ledger update at the end of a settled paid retry.\<close>

definition trackSpending :: "'k LLMClient \<Rightarrow> PaymentOption \<Rightarrow> 'k LLMClient" where
  "trackSpending c paymentOption =
     (let c1 = c\<lparr>sessionCalls := sessionCalls c + 1\<rparr>
      in if Amount paymentOption \<noteq> ''''
         then (case Sscanf_f (Amount paymentOption) of
                 Some amountMicro \<Rightarrow>
                   c1\<lparr>sessionTotalUSD := sessionTotalUSD c1 + amountMicro / 1000000\<rparr>
               | None \<Rightarrow> c1)
         else c1)"

text \<open>The resource URL of the payload: the server's, or the request's when it is empty.\<close>

definition resourceURLFor :: "PaymentRequirement \<Rightarrow> string \<Rightarrow> string" where
  "resourceURLFor paymentReq url =
     (let resourceURL = URL (PaymentRequirement.Resource paymentReq)
      in if resourceURL = '''' then url else resourceURL)"

text \<open>
  \<open>handlePaymentAndRetry\<close>. The state is the client and the list of the requests handed
  to \<open>Do\<close> so far; both are returned with the result.
\<close>

definition handlePaymentAndRetry ::
  "('k, 'r) world \<Rightarrow> 'k LLMClient \<Rightarrow> request list \<Rightarrow> string \<Rightarrow> string \<Rightarrow> response
   \<Rightarrow> 'k LLMClient \<times> request list \<times> (error + 'r)" where
  "handlePaymentAndRetry w c sent url body resp =
     (let paymentHeader = paymentHeaderOf w resp
      in if paymentHeader = ''''
         then (c, sent, Inl (PaymentError ''402 response but no payment requirements found''))
         else
      case ParsePaymentRequired w paymentHeader of
        Inl err \<Rightarrow>
          (c, sent, Inl (asPaymentError ''Failed to parse payment requirements: '' err))
      | Inr paymentReq \<Rightarrow>
      (case ExtractPaymentDetails paymentReq of
        Inl err \<Rightarrow>
          (c, sent, Inl (asPaymentError ''Failed to extract payment details: '' err))
      | Inr paymentOption \<Rightarrow>
      let resourceURL = resourceURLFor paymentReq url
      in case CreatePaymentPayload (Crypto w) (privateKey c) (PayTo paymentOption)
                (Amount paymentOption) (Network paymentOption) resourceURL
                (Description (PaymentRequirement.Resource paymentReq))
                (MaxTimeoutSeconds paymentOption) (Extra paymentOption)
                (PaymentRequirement.Extensions paymentReq) of
        Inl err \<Rightarrow> (c, sent, Inl (asPaymentError ''Failed to create payment: '' err))
      | Inr paymentPayload \<Rightarrow>
      (case NewRequest w ''POST'' url body of
        Inl err \<Rightarrow> (c, sent, Inl (Errorf (''failed to create retry request: '' @ err)))
      | Inr retryReq0 \<Rightarrow>
      let retryReq = HeaderSet (HeaderSet retryReq0 ''Content-Type'' ''application/json'')
                       ''PAYMENT-SIGNATURE'' paymentPayload
      in case Do w sent retryReq of
        Inl err \<Rightarrow> (c, sent @ [retryReq], Inl (Errorf (''retry request failed: '' @ err)))
      | Inr retryResp \<Rightarrow>
          if StatusCode retryResp = 402
          then (c, sent @ [retryReq],
                Inl (PaymentError ''Payment was rejected. Check your wallet balance.''))
          else if StatusCode retryResp \<noteq> 200
          then (c, sent @ [retryReq],
                Inl (APIError (StatusCode retryResp)
                       (''API error after payment: '' @ Body retryResp)))
          else (case jsonDecode_response w (Body retryResp) of
                  Inl err \<Rightarrow>
                    (c, sent @ [retryReq], Inl (Errorf (''failed to decode response: '' @ err)))
                | Inr chatResp \<Rightarrow>
                    (trackSpending c paymentOption, sent @ [retryReq], Inr chatResp)))))"

text \<open>\<open>requestWithPayment\<close>: the first attempt, and the hand-over on status 402.\<close>

definition requestWithPayment ::
  "('k, 'r) world \<Rightarrow> 'k LLMClient \<Rightarrow> request list \<Rightarrow> string \<Rightarrow> any
   \<Rightarrow> 'k LLMClient \<times> request list \<times> (error + 'r)" where
  "requestWithPayment w c sent endpoint body =
     (let url = apiURL c @ endpoint
      in case jsonMarshal w body of
        Inl err \<Rightarrow> (c, sent, Inl (Errorf (''failed to encode request body: '' @ err)))
      | Inr jsonBody \<Rightarrow>
      (case NewRequest w ''POST'' url jsonBody of
        Inl err \<Rightarrow> (c, sent, Inl (Errorf (''failed to create request: '' @ err)))
      | Inr req0 \<Rightarrow>
      let req = HeaderSet req0 ''Content-Type'' ''application/json''
      in case Do w sent req of
        Inl err \<Rightarrow> (c, sent @ [req], Inl (Errorf (''request failed: '' @ err)))
      | Inr resp \<Rightarrow>
          if StatusCode resp = 402
          then handlePaymentAndRetry w c (sent @ [req]) url jsonBody resp
          else if StatusCode resp \<noteq> 200
          then (c, sent @ [req],
                Inl (APIError (StatusCode resp) (''API error: '' @ Body resp)))
          else (case jsonDecode_response w (Body resp) of
                  Inl err \<Rightarrow>
                    (c, sent @ [req], Inl (Errorf (''failed to decode response: '' @ err)))
                | Inr chatResp \<Rightarrow> (c, sent @ [req], Inr chatResp))))"

section \<open>ChatCompletion (client.go)\<close>

record ChatMessage =
  Role :: string
  Content :: string

text \<open>
  The options. \<open>SearchParameters\<close> and \<open>Search\<close> are read by \<open>ChatCompletion\<close>; their
  declaration is not in types.go, so the pointer is taken as an optional value.
\<close>

record ChatCompletionOptions =
  MaxTokens :: int64
  Temperature :: "64 word"
  TopP :: "64 word"
  SearchParameters :: "any option"
  Search :: bool

definition DefaultMaxTokens :: int64 where
  "DefaultMaxTokens = 1024"

text \<open>
  \<open>x > 0\<close> on a \<open>float64\<close>, read off its bits: the sign bit is clear, the value is not
  zero and not a NaN (the patterns above that of plus infinity).
\<close>

definition float64_gt0 :: "64 word \<Rightarrow> bool" where
  "float64_gt0 x = (0 < x \<and> x \<le> 0x7FF0000000000000)"

text \<open>\<open>body[k] = v\<close> on the map of the request body.\<close>

definition setKey :: "(string \<times> any) list \<Rightarrow> string \<Rightarrow> any \<Rightarrow> (string \<times> any) list" where
  "setKey kvs k v = filter (\<lambda>kv. fst kv \<noteq> k) kvs @ [(k, v)]"

text \<open>A message as the JSON encoder sees it, by the tags \<open>role\<close> and \<open>content\<close>.\<close>

definition messageValue :: "ChatMessage \<Rightarrow> any" where
  "messageValue m = AStruct [(''role'', AString (Role m)), (''content'', AString (Content m))]"

definition chatBody ::
  "string \<Rightarrow> ChatMessage list \<Rightarrow> ChatCompletionOptions option \<Rightarrow> (string \<times> any) list" where
  "chatBody model messages opts =
     (let body0 = [(''model'', AString model), (''messages'', ASlice (map messageValue messages))];
          maxTokens0 = DefaultMaxTokens
      in case opts of
           None \<Rightarrow> setKey body0 ''max_tokens'' (AInt maxTokens0)
         | Some options \<Rightarrow>
             let maxTokens = (if 0 <s MaxTokens options then MaxTokens options else maxTokens0);
                 body1 = (if float64_gt0 (Temperature options)
                          then setKey body0 ''temperature'' (AFloat64 (Temperature options)) else body0);
                 body2 = (if float64_gt0 (TopP options)
                          then setKey body1 ''top_p'' (AFloat64 (TopP options)) else body1);
                 body3 = (case SearchParameters options of
                            Some sp \<Rightarrow> setKey body2 ''search_parameters'' sp
                          | None \<Rightarrow>
                              if Search options
                              then setKey body2 ''search_parameters'' (AMap [(''mode'', AString ''on'')])
                              else body2)
             in setKey body3 ''max_tokens'' (AInt maxTokens))"

definition ChatCompletion ::
  "('k, 'r) world \<Rightarrow> 'k LLMClient \<Rightarrow> request list \<Rightarrow> string \<Rightarrow> ChatMessage list
   \<Rightarrow> ChatCompletionOptions option \<Rightarrow> 'k LLMClient \<times> request list \<times> (error + 'r)" where
  "ChatCompletion w c sent model messages opts =
     (if model = ''''
      then (c, sent, Inl (ValidationError ''model'' ''Model is required''))
      else if length messages = 0
      then (c, sent, Inl (ValidationError ''messages'' ''At least one message is required''))
      else requestWithPayment w c sent ''/v1/chat/completions''
             (AMap (chatBody model messages opts)))"

section \<open>The requests of a call, and the signing step\<close>

text \<open>The two requests that a call can send.\<close>

definition firstRequest :: "string \<Rightarrow> string \<Rightarrow> request" where
  "firstRequest url body =
     \<lparr>Method = ''POST'', reqURL = url, reqBody = body,
      reqHeader = [(''Content-Type'', ''application/json'')]\<rparr>"


text \<open>
  The steps of \<open>handlePaymentAndRetry\<close> from the challenge to the signed payload, as one
  value: the chosen option and the payload, or \<open>None\<close> when one of the steps fails.
\<close>

definition signedFor ::
  "('k, 'r) world \<Rightarrow> 'k LLMClient \<Rightarrow> string \<Rightarrow> response \<Rightarrow> (PaymentOption \<times> string) option" where
  "signedFor w c url resp =
     (if paymentHeaderOf w resp = '''' then None
      else case ParsePaymentRequired w (paymentHeaderOf w resp) of
        Inl err \<Rightarrow> None
      | Inr paymentReq \<Rightarrow>
      (case ExtractPaymentDetails paymentReq of
        Inl err \<Rightarrow> None
      | Inr paymentOption \<Rightarrow>
      (case CreatePaymentPayload (Crypto w) (privateKey c) (PayTo paymentOption)
                (Amount paymentOption) (Network paymentOption)
                (resourceURLFor paymentReq url)
                (Description (PaymentRequirement.Resource paymentReq))
                (MaxTimeoutSeconds paymentOption) (Extra paymentOption)
                (PaymentRequirement.Extensions paymentReq) of
        Inl err \<Rightarrow> None
      | Inr paymentPayload \<Rightarrow> Some (paymentOption, paymentPayload))))"

section \<open>JSON texts (encoding/json)\<close>

text \<open>
  The syntax tree of a JSON text. A number keeps its literal: what it becomes depends on
  the Go type it is decoded into.
\<close>

datatype json =
    JNull
  | JBool bool
  | JNumber string
  | JString string
  | JArray "json list"
  | JObject "(string \<times> json) list"

definition dquote :: char where
  "dquote = CHR 0x22"

definition backslash :: char where
  "backslash = CHR 0x5C"

text \<open>
  The encoder's string escapes: the quote and the backslash, the control characters, and
  (HTML escaping is on in \<open>json.Marshal\<close>) \<open><\<close>, \<open>>\<close> and \<open>&\<close>. Backspace and form
  feed are written with four hexadecimal digits, as the encoder did before Go 1.22; since
  then it writes the two-character escapes, which the decoder reads as the same
  characters. Bytes from 0x80 on are copied, as the encoder does for valid UTF-8 (the line
  and paragraph separators apart).
\<close>

definition escapeChar :: "char \<Rightarrow> string" where
  "escapeChar c =
     (let n = (of_char c :: nat)
      in if c = dquote then [backslash, dquote]
         else if c = backslash then [backslash, backslash]
         else if c = CHR 0x0A then [backslash, CHR ''n'']
         else if c = CHR 0x0D then [backslash, CHR ''r'']
         else if c = CHR 0x09 then [backslash, CHR ''t'']
         else if n < 32 \<or> c = CHR ''<'' \<or> c = CHR ''>'' \<or> c = CHR ''&''
         then [backslash, CHR ''u'', CHR ''0'', CHR ''0'', hexChar (n div 16), hexChar (n mod 16)]
         else [c])"

definition quoted :: "string \<Rightarrow> string" where
  "quoted s = [dquote] @ concat (map escapeChar s) @ [dquote]"

text \<open>The compact text that \<open>json.Marshal\<close> writes.\<close>

fun jsonPrint :: "json \<Rightarrow> string"
  and printElems :: "json list \<Rightarrow> string"
  and printMembers :: "(string \<times> json) list \<Rightarrow> string" where
  "jsonPrint JNull = ''null''"
| "jsonPrint (JBool b) = (if b then ''true'' else ''false'')"
| "jsonPrint (JNumber lit) = lit"
| "jsonPrint (JString s) = quoted s"
| "jsonPrint (JArray xs) = ''['' @ printElems xs @ '']''"
| "jsonPrint (JObject kvs) = ''{'' @ printMembers kvs @ ''}''"
| "printElems [] = []"
| "printElems [x] = jsonPrint x"
| "printElems (x # y # ys) = jsonPrint x @ '','' @ printElems (y # ys)"
| "printMembers [] = []"
| "printMembers [(k, v)] = quoted k @ '':'' @ jsonPrint v"
| "printMembers ((k, v) # m # ms) = quoted k @ '':'' @ jsonPrint v @ '','' @ printMembers (m # ms)"

text \<open>Reading: white space between tokens is skipped.\<close>

definition isWs :: "char \<Rightarrow> bool" where
  "isWs c = (c = CHR '' '' \<or> c = CHR 0x09 \<or> c = CHR 0x0A \<or> c = CHR 0x0D)"

definition skipWs :: "string \<Rightarrow> string" where
  "skipWs s = dropWhile isWs s"

text \<open>
  A code point as UTF-8, for the escape \<open>\<^verbatim>\<open>\u\<close>XXXX\<close>. Surrogates are not paired up here:
  each becomes the replacement character.
\<close>

definition utf8 :: "nat \<Rightarrow> string" where
  "utf8 cp =
     (if cp < 128 then [char_of cp]
      else if cp < 2048 then [char_of (192 + cp div 64), char_of (128 + cp mod 64)]
      else if 55296 \<le> cp \<and> cp < 57344 then [CHR 0xEF, CHR 0xBF, CHR 0xBD]
      else [char_of (224 + cp div 4096), char_of (128 + (cp div 64) mod 64),
            char_of (128 + cp mod 64)])"

definition unescape :: "char \<Rightarrow> char option" where
  "unescape e =
     (if e = dquote \<or> e = backslash \<or> e = CHR ''/'' then Some e
      else if e = CHR ''b'' then Some (CHR 0x08)
      else if e = CHR ''f'' then Some (CHR 0x0C)
      else if e = CHR ''n'' then Some (CHR 0x0A)
      else if e = CHR ''r'' then Some (CHR 0x0D)
      else if e = CHR ''t'' then Some (CHR 0x09)
      else None)"

text \<open>A string after its opening quote: the content and the text after the closing quote.\<close>

fun parseStringBody :: "string \<Rightarrow> (string \<times> string) option" where
  "parseStringBody [] = None"
| "parseStringBody (c # cs) =
     (if c = dquote then Some ([], cs)
      else if c = backslash
      then (case cs of
              [] \<Rightarrow> None
            | e # r \<Rightarrow>
                if e = CHR ''u''
                then (case r of
                        h1 # h2 # h3 # h4 # r' \<Rightarrow>
                          if list_all isHexDigit [h1, h2, h3, h4]
                          then map_option
                                 (\<lambda>(s, t). (utf8 (foldl (\<lambda>acc h. 16 * acc + hexDigitVal h) 0
                                                      [h1, h2, h3, h4]) @ s, t))
                                 (parseStringBody r')
                          else None
                      | _ \<Rightarrow> None)
                else (case unescape e of
                        None \<Rightarrow> None
                      | Some ch \<Rightarrow> map_option (\<lambda>(s, t). (ch # s, t)) (parseStringBody r)))
      else if (of_char c :: nat) < 32 then None
      else map_option (\<lambda>(s, t). (c # s, t)) (parseStringBody cs))"

text \<open>The grammar of a number: \<open>-? (0 | [1-9][0-9]*) (. [0-9]+)? ([eE] [+-]? [0-9]+)?\<close>.\<close>

definition isNumChar :: "char \<Rightarrow> bool" where
  "isNumChar c =
     (isDigit c \<or> c = CHR ''-'' \<or> c = CHR ''+'' \<or> c = CHR ''.'' \<or> c = CHR ''e'' \<or> c = CHR ''E'')"

definition validExp :: "string \<Rightarrow> bool" where
  "validExp r =
     (case r of
        [] \<Rightarrow> True
      | c # t \<Rightarrow>
          (c = CHR ''e'' \<or> c = CHR ''E'')
          \<and> (let ds = (case t of
                          [] \<Rightarrow> t
                        | s # u \<Rightarrow> if s = CHR ''+'' \<or> s = CHR ''-'' then u else t)
              in ds \<noteq> [] \<and> list_all isDigit ds))"

definition validFrac :: "string \<Rightarrow> bool" where
  "validFrac r =
     (case r of
        [] \<Rightarrow> True
      | c # t \<Rightarrow>
          if c = CHR ''.''
          then takeWhile isDigit t \<noteq> [] \<and> validExp (dropWhile isDigit t)
          else validExp r)"

definition validNumber :: "string \<Rightarrow> bool" where
  "validNumber lit =
     (let s = (case lit of [] \<Rightarrow> lit | c # t \<Rightarrow> if c = CHR ''-'' then t else lit);
          ip = takeWhile isDigit s
      in ip \<noteq> [] \<and> (ip = ''0'' \<or> hd ip \<noteq> CHR ''0'') \<and> validFrac (dropWhile isDigit s))"

text \<open>
  The parser. The first argument bounds the nesting and the number of elements still to
  read; the length of the text is always enough.
\<close>

fun parseValue :: "nat \<Rightarrow> string \<Rightarrow> (json \<times> string) option"
  and parseElems :: "nat \<Rightarrow> string \<Rightarrow> (json list \<times> string) option"
  and parseMembers :: "nat \<Rightarrow> string \<Rightarrow> ((string \<times> json) list \<times> string) option" where
  "parseValue 0 s = None"
| "parseValue (Suc n) s =
     (case skipWs s of
        [] \<Rightarrow> None
      | c # r \<Rightarrow>
          if c = dquote then map_option (\<lambda>(str, t). (JString str, t)) (parseStringBody r)
          else if c = CHR ''[''
          then (case skipWs r of
                  [] \<Rightarrow> None
                | d # t \<Rightarrow> if d = CHR '']'' then Some (JArray [], t)
                           else map_option (\<lambda>(xs, u). (JArray xs, u)) (parseElems n r))
          else if c = CHR ''{''
          then (case skipWs r of
                  [] \<Rightarrow> None
                | d # t \<Rightarrow> if d = CHR ''}'' then Some (JObject [], t)
                           else map_option (\<lambda>(kvs, u). (JObject kvs, u)) (parseMembers n r))
          else if take 4 (c # r) = ''null'' then Some (JNull, drop 4 (c # r))
          else if take 4 (c # r) = ''true'' then Some (JBool True, drop 4 (c # r))
          else if take 5 (c # r) = ''false'' then Some (JBool False, drop 5 (c # r))
          else if validNumber (takeWhile isNumChar (c # r))
          then Some (JNumber (takeWhile isNumChar (c # r)), dropWhile isNumChar (c # r))
          else None)"
| "parseElems 0 s = None"
| "parseElems (Suc n) s =
     (case parseValue n s of
        None \<Rightarrow> None
      | Some (v, t) \<Rightarrow>
          (case skipWs t of
             [] \<Rightarrow> None
           | d # u \<Rightarrow>
               if d = CHR '','' then map_option (\<lambda>(vs, w). (v # vs, w)) (parseElems n u)
               else if d = CHR '']'' then Some ([v], u)
               else None))"
| "parseMembers 0 s = None"
| "parseMembers (Suc n) s =
     (case skipWs s of
        [] \<Rightarrow> None
      | q # r \<Rightarrow>
          if q \<noteq> dquote then None
          else (case parseStringBody r of
                  None \<Rightarrow> None
                | Some (k, t) \<Rightarrow>
                    (case skipWs t of
                       [] \<Rightarrow> None
                     | col # u \<Rightarrow>
                         if col \<noteq> CHR '':'' then None
                         else (case parseValue n u of
                                 None \<Rightarrow> None
                               | Some (v, t2) \<Rightarrow>
                                   (case skipWs t2 of
                                      [] \<Rightarrow> None
                                    | d # u2 \<Rightarrow>
                                        if d = CHR '',''
                                        then map_option (\<lambda>(kvs, w). ((k, v) # kvs, w))
                                               (parseMembers n u2)
                                        else if d = CHR ''}'' then Some ([(k, v)], u2)
                                        else None)))))"

text \<open>A whole text: one value, then nothing but white space.\<close>

definition jsonParse :: "string \<Rightarrow> json option" where
  "jsonParse s =
     (case parseValue (length s) s of
        None \<Rightarrow> None
      | Some (v, rest) \<Rightarrow> if skipWs rest = [] then Some v else None)"

text \<open>
  The strings for which the model of the encoder is exact: ASCII only (beyond it the
  encoder checks UTF-8 and rewrites what is not valid).
\<close>

definition plain :: "string \<Rightarrow> bool" where
  "plain s = list_all (\<lambda>c. (of_char c :: nat) < 128) s"

text \<open>A syntax tree that the encoder can have written: plain strings, numbers of the grammar.\<close>

fun wfJson :: "json \<Rightarrow> bool" where
  "wfJson JNull = True"
| "wfJson (JBool b) = True"
| "wfJson (JNumber lit) = (validNumber lit \<and> list_all isNumChar lit)"
| "wfJson (JString s) = plain s"
| "wfJson (JArray xs) = list_all wfJson xs"
| "wfJson (JObject kvs) = list_all (\<lambda>kv. plain (fst kv) \<and> wfJson (snd kv)) kvs"

text \<open>How much of the parser's first argument a tree needs.\<close>

fun cost :: "json \<Rightarrow> nat"
  and costs :: "json list \<Rightarrow> nat"
  and costm :: "(string \<times> json) list \<Rightarrow> nat" where
  "cost (JArray xs) = 1 + costs xs"
| "cost (JObject kvs) = 1 + costm kvs"
| "cost v = 1"
| "costs [] = 0"
| "costs (x # xs) = 1 + cost x + costs xs"
| "costm [] = 0"
| "costm ((k, v) # kvs) = 1 + cost v + costm kvs"

text \<open>The text after a value does not go on as a number.\<close>

definition okRest :: "string \<Rightarrow> bool" where
  "okRest rest = (case rest of [] \<Rightarrow> True | c # cs \<Rightarrow> \<not> isNumChar c)"

text \<open>
  \<open>strconv.ParseInt(lit, 10, 64)\<close> on the literal of a JSON number, as the decoder uses
  it for a field of type \<open>int\<close>: a fraction, an exponent or a value out of range is an
  error.
\<close>

definition ParseInt64 :: "string \<Rightarrow> int64 option" where
  "ParseInt64 lit =
     (case SetString10 lit of
        None \<Rightarrow> None
      | Some i \<Rightarrow> if - (2 ^ 63) \<le> i \<and> i < 2 ^ 63 then Some (word_of_int i) else None)"

section \<open>Go values and structs as JSON (encoding/json, types.go)\<close>

text \<open>
  The text of a \<open>float64\<close> and back (\<open>strconv\<close>) is a parameter: \<open>fmtFloat\<close> has no
  text for a NaN or an infinity (\<open>json.Marshal\<close> then fails), \<open>parseFloat\<close> none for a
  literal out of range.
\<close>

record floatCodec =
  fmtFloat :: "64 word \<Rightarrow> string option"
  parseFloat :: "string \<Rightarrow> 64 word option"

text \<open>
  A Go map has each key once and no order; a list of entries stands for it. The encoder
  writes the entries of a map sorted by key (the strings compared byte by byte). The
  decoder stores the members of an object one after the other, so the last value of a key
  is the one that stays; the list it returns has each key once, in sorted order.
\<close>

fun lastWins :: "(string \<times> 'a) list \<Rightarrow> (string \<times> 'a) list" where
  "lastWins [] = []"
| "lastWins (kv # kvs) = (if fst kv \<in> fst ` set kvs then lastWins kvs else kv # lastWins kvs)"

definition decodedMap :: "(string \<times> 'a) list \<Rightarrow> (string \<times> 'a) list" where
  "decodedMap kvs = sort_key fst (lastWins kvs)"

text \<open>Encoding a value of type \<open>any\<close>; \<open>None\<close> is the encoder's error.\<close>

fun fromAny :: "floatCodec \<Rightarrow> any \<Rightarrow> json option" where
  "fromAny fc ANil = Some JNull"
| "fromAny fc (ABool b) = Some (JBool b)"
| "fromAny fc (AFloat64 x) = map_option JNumber (fmtFloat fc x)"
| "fromAny fc (AInt i) = Some (JNumber (FormatInt i))"
| "fromAny fc (AString s) = Some (JString s)"
| "fromAny fc (ASlice xs) = map_option JArray (those (map (fromAny fc) xs))"
| "fromAny fc (AMap kvs) =
     map_option JObject
       (those (map (\<lambda>kv. map_option (Pair (fst kv)) (fromAny fc (snd kv)))
                 (sort_key fst kvs)))"
| "fromAny fc (AStruct kvs) =
     map_option JObject
       (those (map (\<lambda>kv. map_option (Pair (fst kv)) (fromAny fc (snd kv))) kvs))"

text \<open>Decoding into \<open>any\<close>: every number becomes a \<open>float64\<close>.\<close>

fun toAny :: "floatCodec \<Rightarrow> json \<Rightarrow> any option" where
  "toAny fc JNull = Some ANil"
| "toAny fc (JBool b) = Some (ABool b)"
| "toAny fc (JNumber lit) = map_option AFloat64 (parseFloat fc lit)"
| "toAny fc (JString s) = Some (AString s)"
| "toAny fc (JArray xs) = map_option ASlice (those (map (toAny fc) xs))"
| "toAny fc (JObject kvs) =
     map_option (\<lambda>ms. AMap (decodedMap ms))
       (those (map (\<lambda>kv. map_option (Pair (fst kv)) (toAny fc (snd kv))) kvs))"






text \<open>
  Decoding into a struct. The member of an object for a key is the last one of that name;
  an absent member and \<open>null\<close> leave the field at its zero value; a value of another
  kind is an error. (The decoder also accepts a key that differs in case only, and in a
  text that has a key of a struct twice it goes member by member: a later \<open>null\<close>
  leaves the earlier value, a later object is read into the earlier struct or map. Both
  are left out: no text written by the encoder has such keys.)
\<close>

definition member :: "(string \<times> json) list \<Rightarrow> string \<Rightarrow> json option" where
  "member kvs k = map_of (rev kvs) k"

definition stringField :: "(string \<times> json) list \<Rightarrow> string \<Rightarrow> string option" where
  "stringField kvs k =
     (case member kvs k of
        None \<Rightarrow> Some ''''
      | Some JNull \<Rightarrow> Some ''''
      | Some (JString s) \<Rightarrow> Some s
      | Some _ \<Rightarrow> None)"

definition intField :: "(string \<times> json) list \<Rightarrow> string \<Rightarrow> int64 option" where
  "intField kvs k =
     (case member kvs k of
        None \<Rightarrow> Some 0
      | Some JNull \<Rightarrow> Some 0
      | Some (JNumber lit) \<Rightarrow> ParseInt64 lit
      | Some _ \<Rightarrow> None)"

definition fromJSON_map :: "floatCodec \<Rightarrow> json \<Rightarrow> gomap option" where
  "fromJSON_map fc j =
     (case j of
        JNull \<Rightarrow> Some None
      | JObject ms \<Rightarrow>
          map_option (\<lambda>kvs. Some (decodedMap kvs))
            (those (map (\<lambda>kv. map_option (Pair (fst kv)) (toAny fc (snd kv))) ms))
      | _ \<Rightarrow> None)"

definition mapField :: "floatCodec \<Rightarrow> (string \<times> json) list \<Rightarrow> string \<Rightarrow> gomap option" where
  "mapField fc kvs k =
     (case member kvs k of
        None \<Rightarrow> Some None
      | Some j \<Rightarrow> fromJSON_map fc j)"

definition fromJSON_ResourceInfo :: "json \<Rightarrow> ResourceInfo option" where
  "fromJSON_ResourceInfo j =
     (case j of
        JNull \<Rightarrow> Some \<lparr>URL = '''', Description = '''', MimeType = ''''\<rparr>
      | JObject kvs \<Rightarrow>
          (case (stringField kvs ''url'', stringField kvs ''description'',
                 stringField kvs ''mimeType'') of
             (Some u, Some d, Some m) \<Rightarrow> Some \<lparr>URL = u, Description = d, MimeType = m\<rparr>
           | _ \<Rightarrow> None)
      | _ \<Rightarrow> None)"

definition fromJSON_PaymentOption :: "floatCodec \<Rightarrow> json \<Rightarrow> PaymentOption option" where
  "fromJSON_PaymentOption fc j =
     (case j of
        JNull \<Rightarrow>
          Some \<lparr>Scheme = '''', Network = '''', Amount = '''', Asset = '''', PayTo = '''',
                MaxTimeoutSeconds = 0, Extra = None\<rparr>
      | JObject kvs \<Rightarrow>
          (case (stringField kvs ''scheme'', stringField kvs ''network'',
                 stringField kvs ''amount'', stringField kvs ''asset'',
                 stringField kvs ''payTo'', intField kvs ''maxTimeoutSeconds'',
                 mapField fc kvs ''extra'') of
             (Some s, Some n, Some a, Some t, Some p, Some m, Some e) \<Rightarrow>
               Some \<lparr>Scheme = s, Network = n, Amount = a, Asset = t, PayTo = p,
                     MaxTimeoutSeconds = m, Extra = e\<rparr>
           | _ \<Rightarrow> None)
      | _ \<Rightarrow> None)"

definition acceptsField :: "floatCodec \<Rightarrow> (string \<times> json) list \<Rightarrow> PaymentOption list option" where
  "acceptsField fc kvs =
     (case member kvs ''accepts'' of
        None \<Rightarrow> Some []
      | Some JNull \<Rightarrow> Some []
      | Some (JArray xs) \<Rightarrow> those (map (fromJSON_PaymentOption fc) xs)
      | Some _ \<Rightarrow> None)"

definition resourceField :: "(string \<times> json) list \<Rightarrow> ResourceInfo option" where
  "resourceField kvs =
     (case member kvs ''resource'' of
        None \<Rightarrow> Some \<lparr>URL = '''', Description = '''', MimeType = ''''\<rparr>
      | Some j \<Rightarrow> fromJSON_ResourceInfo j)"

definition fromJSON_PaymentRequirement :: "floatCodec \<Rightarrow> json \<Rightarrow> PaymentRequirement option" where
  "fromJSON_PaymentRequirement fc j =
     (case j of
        JNull \<Rightarrow>
          Some \<lparr>PaymentRequirement.X402Version = 0, Accepts = [],
                Resource = \<lparr>URL = '''', Description = '''', MimeType = ''''\<rparr>,
                Extensions = None\<rparr>
      | JObject kvs \<Rightarrow>
          (case (intField kvs ''x402Version'', acceptsField fc kvs, resourceField kvs,
                 mapField fc kvs ''extensions'') of
             (Some v, Some a, Some r, Some e) \<Rightarrow>
               Some \<lparr>PaymentRequirement.X402Version = v, Accepts = a, Resource = r,
                     Extensions = e\<rparr>
           | _ \<Rightarrow> None)
      | _ \<Rightarrow> None)"

text \<open>
  \<open>json.Unmarshal(decoded, &req)\<close> as this model of the decoder has it. The texts of the
  errors of the encoder and the decoder are shortened: the library's name the offending
  character or the Go type.
\<close>

definition Unmarshal_PaymentRequirement :: "floatCodec \<Rightarrow> string \<Rightarrow> string + PaymentRequirement" where
  "Unmarshal_PaymentRequirement fc text =
     (case jsonParse text of
        None \<Rightarrow> Inl ''invalid character''
      | Some j \<Rightarrow>
          (case fromJSON_PaymentRequirement fc j of
             None \<Rightarrow> Inl ''json: cannot unmarshal''
           | Some req \<Rightarrow> Inr req))"


text \<open>
  \<open>json.Marshal\<close> of a value of type \<open>any\<close>, and \<open>json.NewDecoder(r).Decode(&m)\<close> for
  a \<open>map[string]any\<close>: the decoder reads the first value of the text and leaves what
  follows it unread; \<open>null\<close> leaves the map nil.
\<close>

definition Marshal_any :: "floatCodec \<Rightarrow> any \<Rightarrow> string + string" where
  "Marshal_any fc v =
     (case fromAny fc v of
        None \<Rightarrow> Inl ''json: unsupported value''
      | Some j \<Rightarrow> Inr (jsonPrint j))"

definition Decode_map :: "floatCodec \<Rightarrow> string \<Rightarrow> string + gomap" where
  "Decode_map fc text =
     (case parseValue (length text) text of
        None \<Rightarrow> Inl ''invalid character''
      | Some (j, rest) \<Rightarrow>
          (case fromJSON_map fc j of
             None \<Rightarrow> Inl ''json: cannot unmarshal''
           | Some m \<Rightarrow> Inr m))"

text \<open>A world whose JSON functions are those of this model.\<close>

definition goWorld :: "floatCodec \<Rightarrow> ('k, 'r) world \<Rightarrow> ('k, 'r) world" where
  "goWorld fc w =
     w\<lparr>jsonMarshal := Marshal_any fc,
       jsonDecode_map := Decode_map fc,
       jsonUnmarshal_PaymentRequirement := Unmarshal_PaymentRequirement fc\<rparr>"





text \<open>A float codec that knows the numbers 2 and 300 only, for the examples.\<close>

definition exampleFloats :: floatCodec where
  "exampleFloats =
     \<lparr>fmtFloat = (\<lambda>x. if x = 0x4000000000000000 then Some ''2''
                       else if x = 0x4072C00000000000 then Some ''300'' else None),
      parseFloat = (\<lambda>s. if s = ''2'' then Some 0x4000000000000000
                         else if s = ''300'' then Some 0x4072C00000000000 else None)\<rparr>"





section \<open>An example server\<close>

text \<open>
  A world for evaluating the definitions: the transport answers the first request with
  \<open>first\<close> and any later one with \<open>second\<close>; the JSON functions are those of the
  model above; the text of a successful response stands for its decoded value.
\<close>

definition exampleWorld :: "response \<Rightarrow> response \<Rightarrow> (unit, string) world" where
  "exampleWorld first second =
     \<lparr>Crypto = exampleCrypto,
      Do = (\<lambda>sent req. if sent = [] then Inr first else Inr second),
      urlError = (\<lambda>url. None),
      jsonMarshal = Marshal_any exampleFloats,
      jsonDecode_map = Decode_map exampleFloats,
      jsonUnmarshal_PaymentRequirement = Unmarshal_PaymentRequirement exampleFloats,
      jsonDecode_response = (\<lambda>s. Inr s)\<rparr>"



definition exampleChallengeBody :: json where
  "exampleChallengeBody =
     JObject [(''x402'', JBool True),
              (''x402Version'', JNumber ''2''),
              (''accepts'',
               JArray [JObject [(''scheme'', JString ''exact''),
                                (''network'', JString ''eip155:8453''),
                                (''amount'', JString ''1000000''),
                                (''asset'', JString ''0x833589fCD6eDb6E08f4c7C32D4f71b54bdA02913''),
                                (''payTo'', JString ''0x1234567890123456789012345678901234567890''),
                                (''maxTimeoutSeconds'', JNumber ''300'')]])]"

definition bodyChallenge :: response where
  "bodyChallenge =
     \<lparr>StatusCode = 402, HeaderGet = (\<lambda>k. ''''), Body = jsonPrint exampleChallengeBody\<rparr>"

definition success :: response where
  "success = \<lparr>StatusCode = 200, HeaderGet = (\<lambda>k. ''''), Body = ''ok''\<rparr>"

definition exampleClient :: "unit LLMClient" where
  "exampleClient =
     \<lparr>privateKey = (), address = ''0xf39Fd6e51aad88F6F4ce6aB8827279cffFb92266'',
      apiURL = ''https://blockrun.ai/api'', sessionTotalUSD = 0, sessionCalls = 0\<rparr>"

text \<open>The map that the decoder makes of the body of \<open>bodyChallenge\<close>.\<close>

definition exampleChallengeMap :: "(string \<times> any) list" where
  "exampleChallengeMap =
     [(''accepts'',
       ASlice [AMap [(''amount'', AString ''1000000''),
                     (''asset'', AString ''0x833589fCD6eDb6E08f4c7C32D4f71b54bdA02913''),
                     (''maxTimeoutSeconds'', AFloat64 0x4072C00000000000),
                     (''network'', AString ''eip155:8453''),
                     (''payTo'', AString ''0x1234567890123456789012345678901234567890''),
                     (''scheme'', AString ''exact'')]]),
      (''x402'', ABool True),
      (''x402Version'', AFloat64 0x4000000000000000)]"

section \<open>Decimal numerals\<close>

lemma isDigit_digitChar: "d < 10 \<Longrightarrow> isDigit (digitChar d)"
  by (simp add: isDigit_def digitChar_def)

lemma digitVal_digitChar: "d < 10 \<Longrightarrow> digitVal (digitChar d) = d"
  by (simp add: digitVal_def digitChar_def)

lemma decimal_digits: "list_all isDigit (decimal n)"
proof (induction n rule: decimal.induct)
  case (1 n)
  show ?case
  proof (cases "n < 10")
    case True
    then show ?thesis by (subst decimal.simps) (simp add: isDigit_digitChar)
  next
    case False
    with 1 show ?thesis by (subst decimal.simps) (simp add: isDigit_digitChar)
  qed
qed

lemma decimal_nonempty: "decimal n \<noteq> []"
  by (subst decimal.simps) simp

lemma digitsVal_snoc: "digitsVal (ds @ [c]) = 10 * digitsVal ds + digitVal c"
  by (simp add: digitsVal_def)

lemma digitsVal_decimal: "digitsVal (decimal n) = n"
proof (induction n rule: decimal.induct)
  case (1 n)
  show ?case
  proof (cases "n < 10")
    case True
    then show ?thesis by (subst decimal.simps) (simp add: digitsVal_def digitVal_digitChar)
  next
    case False
    with 1 show ?thesis
      by (subst decimal.simps) (simp add: digitsVal_snoc digitVal_digitChar)
  qed
qed

lemma isDigit_not_sign: "isDigit c \<Longrightarrow> c \<noteq> CHR ''-'' \<and> c \<noteq> CHR ''+'' \<and> c \<noteq> CHR ''x'' \<and> c \<noteq> CHR ''X''"
  by (auto simp: isDigit_def)

lemma SetString10_digits:
  assumes "ds \<noteq> []" "list_all isDigit ds"
  shows "SetString10 ds = Some (int (digitsVal ds))"
    and "SetString10 (CHR ''-'' # ds) = Some (- int (digitsVal ds))"
  using assms by (cases ds; auto simp: SetString10_def dest: isDigit_not_sign)+

lemma SetString10_bigString: "SetString10 (bigString i) = Some i"
  using SetString10_digits [OF decimal_nonempty decimal_digits]
  by (simp add: bigString_def digitsVal_decimal)

lemma bigString_nonempty: "bigString i \<noteq> []"
  by (simp add: bigString_def decimal_nonempty)

lemma bigString_no_0x: "take 2 (bigString i) \<noteq> ''0x'' \<and> take 2 (bigString i) \<noteq> ''0X''"
proof -
  have d: "take 2 (decimal n) \<noteq> ''0x'' \<and> take 2 (decimal n) \<noteq> ''0X''" for n
    using decimal_digits [of n]
    by (cases "decimal n" rule: list.exhaust; cases "tl (decimal n)")
       (auto dest: isDigit_not_sign)
  show ?thesis
    using d by (auto simp: bigString_def)
qed

lemma parseInteger_uint256_bigString:
  "parseInteger_uint256 (bigString i) = Inr j \<longleftrightarrow> (j = i \<and> 0 \<le> i \<and> i < 2 ^ 256)"
  using bigString_no_0x [of i]
  by (auto simp: parseInteger_uint256_def ParseBig256_def SetString10_bigString bigString_nonempty
           split: option.splits if_splits)

section \<open>ExtractPaymentDetails\<close>

lemma ExtractPaymentDetails_empty:
  "Accepts req = [] \<Longrightarrow>
   ExtractPaymentDetails req = Inl (Errorf ''no payment options in payment required response'')"
  by (simp add: ExtractPaymentDetails_def)

lemma ExtractPaymentDetails_cons:
  "Accepts req = opt # rest \<Longrightarrow>
   ExtractPaymentDetails req =
     (if resolvedAmount opt = ''''
      then Inl (Errorf ''no amount found in payment requirements'')
      else Inr (opt\<lparr>Amount := resolvedAmount opt\<rparr>))"
  by (auto simp: ExtractPaymentDetails_def index_def resolvedAmount_def asString_def Let_def
           split: option.splits any.splits)

text \<open>
  C3. With no option offered the call returns an error. Otherwise it returns the first
  option of the sequence with the amount resolved (the \<open>amount\<close> field when it is not
  empty, else the string under \<open>extra["maxAmountRequired"]\<close>), and an error when both are
  empty or missing. It never panics, and a returned option never has an empty amount.
\<close>

theorem C3_ExtractPaymentDetails:
  "(Accepts req = [] \<longrightarrow>
      ExtractPaymentDetails req = Inl (Errorf ''no payment options in payment required response''))
   \<and> (\<forall>opt rest. Accepts req = opt # rest \<longrightarrow>
        (Amount opt \<noteq> '''' \<longrightarrow> ExtractPaymentDetails req = Inr opt)
        \<and> (Amount opt = '''' \<longrightarrow>
             (\<forall>s. lookup (Extra opt) ''maxAmountRequired'' = Some (AString s) \<and> s \<noteq> '''' \<longrightarrow>
                  ExtractPaymentDetails req = Inr (opt\<lparr>Amount := s\<rparr>))
             \<and> (lookup (Extra opt) ''maxAmountRequired'' = None
                  \<or> lookup (Extra opt) ''maxAmountRequired'' = Some (AString '''') \<longrightarrow>
                  ExtractPaymentDetails req =
                    Inl (Errorf ''no amount found in payment requirements''))))
   \<and> (\<forall>msg. ExtractPaymentDetails req \<noteq> Inl (Panic msg))
   \<and> (\<forall>opt'. ExtractPaymentDetails req = Inr opt' \<longrightarrow>
        Amount opt' \<noteq> '''' \<and> (\<exists>opt rest. Accepts req = opt # rest \<and>
          opt' = opt\<lparr>Amount := resolvedAmount opt\<rparr>))"
proof (cases "Accepts req")
  case Nil
  then show ?thesis by (simp add: ExtractPaymentDetails_empty)
next
  case (Cons opt rest)
  then show ?thesis
    by (auto simp: ExtractPaymentDetails_cons resolvedAmount_def split: if_splits)
qed

theorem C3_ExtractPaymentDetails_witness:
  "ExtractPaymentDetails (exampleRequirement [])
     = Inl (Errorf ''no payment options in payment required response'')
   \<and> ExtractPaymentDetails (exampleRequirement [exampleOption ''1000'' None])
     = Inr (exampleOption ''1000'' None)
   \<and> ExtractPaymentDetails
       (exampleRequirement [exampleOption '''' (Some [(''maxAmountRequired'', AString ''250'')])])
     = Inr (exampleOption ''250'' (Some [(''maxAmountRequired'', AString ''250'')]))
   \<and> ExtractPaymentDetails (exampleRequirement [exampleOption '''' None])
     = Inl (Errorf ''no amount found in payment requirements'')"
  using
    C3_ExtractPaymentDetails [of "exampleRequirement []"]
    C3_ExtractPaymentDetails [of "exampleRequirement [exampleOption ''1000'' None]"]
    C3_ExtractPaymentDetails
      [of "exampleRequirement [exampleOption '''' (Some [(''maxAmountRequired'', AString ''250'')])]"]
    C3_ExtractPaymentDetails [of "exampleRequirement [exampleOption '''' None]"]
  by (simp add: exampleRequirement_def exampleOption_def lookup_def)

section \<open>Frame of ExtractPaymentDetails\<close>

lemma ExtractPaymentDetails_mem_frame:
  assumes "ExtractPaymentDetails_mem h accepts = (h', r)"
  shows "\<forall>a < nextFree h. cells h' a = cells h a"
  using assms
  by (auto simp: ExtractPaymentDetails_mem_def alloc_def store_def index_def Let_def
           split: if_splits option.splits sum.splits prod.splits)

lemma ExtractPaymentDetails_mem_result:
  assumes "ExtractPaymentDetails_mem h accepts = (h', r)"
  shows "map_sum id (cells h') r
         = ExtractPaymentDetails (readRequirement h v accepts res ext)"
  using assms
  by (auto simp: ExtractPaymentDetails_mem_def ExtractPaymentDetails_def readRequirement_def
                 alloc_def store_def index_def Let_def
           split: if_splits option.splits sum.splits prod.splits)

lemma ExtractPaymentDetails_mem_fresh:
  assumes "ExtractPaymentDetails_mem h accepts = (h', Inr p)"
  shows "p = nextFree h"
  using assms
  by (auto simp: ExtractPaymentDetails_mem_def alloc_def store_def index_def Let_def
           split: if_splits option.splits sum.splits prod.splits)

text \<open>
  C10. A call of \<open>ExtractPaymentDetails\<close> changes no allocated cell: the elements of
  \<open>req.Accepts\<close>, and so \<open>req.Accepts[0]\<close>, hold after the call what they held before,
  also when the legacy amount is applied. The returned pointer is a new cell, none of the
  slice, and it holds the option that the function returns.
\<close>

theorem C10_ExtractPaymentDetails_frame:
  assumes "\<forall>a \<in> set accepts. a < nextFree h"
    and "ExtractPaymentDetails_mem h accepts = (h', r)"
  shows "map (cells h') accepts = map (cells h) accepts
         \<and> readRequirement h' v accepts res ext = readRequirement h v accepts res ext
         \<and> (\<forall>p. r = Inr p \<longrightarrow> p \<notin> set accepts)
         \<and> map_sum id (cells h') r = ExtractPaymentDetails (readRequirement h v accepts res ext)"
proof -
  have frame: "\<forall>a < nextFree h. cells h' a = cells h a"
    using assms(2) by (rule ExtractPaymentDetails_mem_frame)
  with assms(1) have same: "map (cells h') accepts = map (cells h) accepts"
    by simp
  have fresh: "\<forall>p. r = Inr p \<longrightarrow> p \<notin> set accepts"
  proof (intro allI impI)
    fix p assume "r = Inr p"
    with assms(2) have "p = nextFree h"
      by (simp add: ExtractPaymentDetails_mem_fresh)
    with assms(1) show "p \<notin> set accepts" by auto
  qed
  from same fresh ExtractPaymentDetails_mem_result [OF assms(2)] show ?thesis
    by (simp add: readRequirement_def)
qed

theorem C10_ExtractPaymentDetails_frame_witness:
  "nextFree exampleMemory = 2
   \<and> snd (ExtractPaymentDetails_mem exampleMemory [0]) = Inr 2
   \<and> Amount (cells (fst (ExtractPaymentDetails_mem exampleMemory [0])) 2) = ''250''
   \<and> Amount (cells (fst (ExtractPaymentDetails_mem exampleMemory [0])) 0) = ''''
   \<and> map (cells (fst (ExtractPaymentDetails_mem exampleMemory [0]))) [0]
       = map (cells exampleMemory) [0]"
proof -
  have wf: "\<forall>a \<in> set [0 :: addr]. a < nextFree exampleMemory"
    by (simp add: exampleMemory_def)
  have run: "ExtractPaymentDetails_mem exampleMemory [0]
             = (fst (ExtractPaymentDetails_mem exampleMemory [0]),
                snd (ExtractPaymentDetails_mem exampleMemory [0]))"
    by simp
  have res: "snd (ExtractPaymentDetails_mem exampleMemory [0]) = Inr 2"
    by (simp add: ExtractPaymentDetails_mem_def exampleMemory_def exampleOption_def alloc_def
                  store_def index_def lookup_def asString_def Let_def)
  have new: "Amount (cells (fst (ExtractPaymentDetails_mem exampleMemory [0])) 2) = ''250''"
    by (simp add: ExtractPaymentDetails_mem_def exampleMemory_def exampleOption_def alloc_def
                  store_def index_def lookup_def asString_def Let_def)
  have old: "Amount (cells exampleMemory 0) = ''''"
    by (simp add: exampleMemory_def exampleOption_def)
  from C10_ExtractPaymentDetails_frame [OF wf run, of 2 "\<lparr>URL = '''', Description = '''', MimeType = ''''\<rparr>" None]
  have same: "map (cells (fst (ExtractPaymentDetails_mem exampleMemory [0]))) [0]
              = map (cells exampleMemory) [0]"
    by simp
  have nf: "nextFree exampleMemory = 2"
    by (simp add: exampleMemory_def)
  with same res new old show ?thesis by simp
qed

section \<open>CreatePaymentPayload\<close>

lemma buildPayload_Inr:
  assumes "buildPayload cr key recipient amount network url desc mts extra ext = Inr p"
  shows "\<exists>nonce amountBig h signature.
           createNonce cr = Inr nonce
         \<and> SetString10 amount = Some amountBig
         \<and> HashStruct_message cr
              \<lparr>msgFrom = PubkeyToAddressHex cr key, msgTo = recipient,
               msgValue = bigString amountBig,
               msgValidAfter = bigString (sint (Now cr - 600)),
               msgValidBefore = bigString (sint (Now cr + mts)),
               msgNonce = nonce\<rparr> = Inr h
         \<and> p = \<lparr>PaymentPayload.X402Version = 2,
                 Resource = \<lparr>URL = url, Description = desc, MimeType = ''application/json''\<rparr>,
                 Accepted = \<lparr>Scheme = ''exact'', Network = network, Amount = amount,
                             Asset = USDCBase, PayTo = recipient,
                             MaxTimeoutSeconds = mts,
                             Extra = Some [(''name'', AString (usdcName extra)),
                                           (''version'', AString (usdcVersion extra))]\<rparr>,
                 Payload = \<lparr>Signature = ''0x'' @ Bytes2Hex signature,
                            Authorization = \<lparr>From = PubkeyToAddressHex cr key, To = recipient,
                                              Value = amount,
                                              ValidAfter = FormatInt (Now cr - 600),
                                              ValidBefore = FormatInt (Now cr + mts),
                                              Nonce = nonce\<rparr>\<rparr>,
                 Extensions = ext\<rparr>"
  using assms
  by (auto simp: buildPayload_def Let_def split: sum.splits option.splits)

lemma HashStruct_message_Inr:
  assumes "HashStruct_message cr m = Inr h"
  shows "(\<exists>v. parseInteger_uint256 (msgValue m) = Inr v)
       \<and> (\<exists>v. parseInteger_uint256 (msgValidAfter m) = Inr v)
       \<and> (\<exists>v. parseInteger_uint256 (msgValidBefore m) = Inr v)"
  using assms by (auto simp: HashStruct_message_def split: sum.splits)

lemma sint_sub600:
  fixes now :: int64
  assumes "0 \<le> sint now"
  shows "sint (now - 600) = sint now - 600"
proof -
  have "sint now < 2 ^ 63" using sint_lt [of now] by simp
  with assms have "signed_take_bit 63 (sint now - 600) = sint now - 600"
    by (simp add: signed_take_bit_int_eq_self_iff)
  moreover have "sint (600 :: int64) = 600" by simp
  ultimately show ?thesis
    using sint_word_ariths(2) [of now "600 :: int64"] by simp
qed

lemma sint_add_nonneg:
  fixes a b :: int64
  assumes "0 \<le> sint a" "0 \<le> sint b" "0 \<le> sint (a + b)"
  shows "sint (a + b) = sint a + sint b"
proof (rule ccontr)
  assume neq: "sint (a + b) \<noteq> sint a + sint b"
  have eq: "sint (a + b) = signed_take_bit 63 (sint a + sint b)"
    using sint_word_ariths(1) [of a b] by simp
  have "\<not> (sint a + sint b < 2 ^ 63)"
    using neq eq assms by (simp add: signed_take_bit_int_eq_self_iff)
  then have "2 ^ 63 \<le> sint a + sint b" by simp
  then have "signed_take_bit 63 (sint a + sint b) \<le> sint a + sint b - 2 ^ Suc 63"
    by (rule signed_take_bit_int_less_eq)
  then have le: "signed_take_bit 63 (sint a + sint b) \<le> sint a + sint b - 18446744073709551616"
    by simp
  have "sint a < 9223372036854775808" "sint b < 9223372036854775808"
    using sint_lt [of a] sint_lt [of b] by simp_all
  with le have "signed_take_bit 63 (sint a + sint b) < 0" by linarith
  with eq have "sint (a + b) < 0" by (simp only:)
  with assms(3) show False by simp
qed

lemma CreatePaymentPayload_Inr:
  assumes "CreatePaymentPayload cr key recipient amount network url desc mts extra ext = Inr s"
  shows "\<exists>p js. buildPayload cr key recipient amount network url desc mts extra ext = Inr p
               \<and> jsonMarshal_PaymentPayload cr p = Inr js \<and> s = EncodeToString js"
  using assms by (auto simp: CreatePaymentPayload_def split: sum.splits)

text \<open>
  C1. A payload that \<open>CreatePaymentPayload\<close> produces carries \<open>validAfter = now - 600\<close>
  and \<open>validBefore = now + maxTimeoutSeconds\<close>, both from the one clock reading, printed in
  decimal; their difference is \<open>maxTimeoutSeconds + 600\<close> in the arithmetic of \<open>int64\<close>.
  With a clock at or after the epoch and \<open>maxTimeoutSeconds \<ge> 0\<close> the two strings read
  back as the integers \<open>now - 600\<close> and \<open>now + maxTimeoutSeconds\<close>, without wrap-around
  (a sum that wraps is negative, and the \<open>uint256\<close> check of the typed-data hash refuses
  it), so the difference is \<open>maxTimeoutSeconds + 600\<close> exactly.
\<close>

theorem C1_validity_window:
  assumes "CreatePaymentPayload cr key recipient amount network url desc mts extra ext = Inr s"
  shows "\<exists>p js. buildPayload cr key recipient amount network url desc mts extra ext = Inr p
           \<and> jsonMarshal_PaymentPayload cr p = Inr js \<and> s = EncodeToString js
           \<and> ValidAfter (Authorization (Payload p)) = FormatInt (Now cr - 600)
           \<and> ValidBefore (Authorization (Payload p)) = FormatInt (Now cr + mts)
           \<and> (Now cr + mts) - (Now cr - 600) = mts + 600
           \<and> (0 \<le> sint (Now cr) \<and> 0 \<le> sint mts \<longrightarrow>
                (\<exists>va vb. SetString10 (ValidAfter (Authorization (Payload p))) = Some va
                       \<and> SetString10 (ValidBefore (Authorization (Payload p))) = Some vb
                       \<and> va = sint (Now cr) - 600
                       \<and> vb = sint (Now cr) + sint mts
                       \<and> vb - va = sint mts + 600))"
proof -
  from CreatePaymentPayload_Inr [OF assms] obtain p js where
    p: "buildPayload cr key recipient amount network url desc mts extra ext = Inr p"
    and js: "jsonMarshal_PaymentPayload cr p = Inr js" "s = EncodeToString js"
    by blast
  from buildPayload_Inr [OF p] obtain nonce amountBig h where
    h: "HashStruct_message cr
              \<lparr>msgFrom = PubkeyToAddressHex cr key, msgTo = recipient,
               msgValue = bigString amountBig,
               msgValidAfter = bigString (sint (Now cr - 600)),
               msgValidBefore = bigString (sint (Now cr + mts)),
               msgNonce = nonce\<rparr> = Inr h"
    and va: "ValidAfter (Authorization (Payload p)) = FormatInt (Now cr - 600)"
    and vb: "ValidBefore (Authorization (Payload p)) = FormatInt (Now cr + mts)"
    by auto
  have word: "(Now cr + mts) - (Now cr - 600) = mts + 600"
    by simp
  have exact: "sint (Now cr - 600) = sint (Now cr) - 600
             \<and> sint (Now cr + mts) = sint (Now cr) + sint mts"
    if nonneg: "0 \<le> sint (Now cr)" "0 \<le> sint mts"
  proof -
    from HashStruct_message_Inr [OF h]
    have "0 \<le> sint (Now cr + mts)"
      by (auto simp: parseInteger_uint256_bigString)
    with nonneg show ?thesis
      by (simp add: sint_sub600 sint_add_nonneg)
  qed
  have parse: "SetString10 (ValidAfter (Authorization (Payload p))) = Some (sint (Now cr - 600))"
    "SetString10 (ValidBefore (Authorization (Payload p))) = Some (sint (Now cr + mts))"
    using va vb by (simp_all add: FormatInt_def SetString10_bigString)
  from p js va vb word parse exact show ?thesis
    by auto
qed

lemmas char_eval = char_of_def bit_Suc_0_iff

lemmas payload_eval =
  CreatePaymentPayload_def buildPayload_def createNonce_def HashStruct_message_def
  parseInteger_uint256_def ParseBig256_def SetString10_def SetString16_def bigString_def
  FormatInt_def decimal.simps digitChar_def digitsVal_def digitVal_def isDigit_def
  fixV_def index_def Bytes2Hex_def hexChar_def EncodeToString_def b64char_def
  usdcName_def usdcVersion_def lookup_def asString_def Let_def

lemma exampleCrypto_runs:
  "CreatePaymentPayload exampleCrypto () ''0x1234567890123456789012345678901234567890''
          ''1000'' ''eip155:8453'' ''https://blockrun.ai/api/v1/chat/completions''
          ''Test payment'' 300 None None = Inr ''e30=''"
  by (simp add: payload_eval exampleCrypto_def char_eval)

theorem C1_validity_window_witness:
  "\<exists>p. CreatePaymentPayload exampleCrypto () ''0x1234567890123456789012345678901234567890''
            ''1000'' ''eip155:8453'' ''https://blockrun.ai/api/v1/chat/completions''
            ''Test payment'' 300 None None = Inr ''e30=''
        \<and> buildPayload exampleCrypto () ''0x1234567890123456789012345678901234567890''
            ''1000'' ''eip155:8453'' ''https://blockrun.ai/api/v1/chat/completions''
            ''Test payment'' 300 None None = Inr p
        \<and> ValidAfter (Authorization (Payload p)) = ''1699999400''
        \<and> ValidBefore (Authorization (Payload p)) = ''1700000300''
        \<and> SetString10 (ValidAfter (Authorization (Payload p))) = Some 1699999400
        \<and> SetString10 (ValidBefore (Authorization (Payload p))) = Some 1700000300
        \<and> (1700000300 :: int) - 1699999400 = 300 + 600"
proof -
  have now: "Now exampleCrypto = 1700000000" "0 \<le> sint (Now exampleCrypto)"
    "0 \<le> sint (300 :: int64)" "sint (Now exampleCrypto) = 1700000000" "sint (300 :: int64) = 300"
    by (simp_all add: exampleCrypto_def)
  have f1: "FormatInt (1700000000 - 600) = ''1699999400''"
    by (simp add: payload_eval char_eval)
  have f2: "FormatInt (1700000000 + 300) = ''1700000300''"
    by (simp add: payload_eval char_eval)
  from C1_validity_window [OF exampleCrypto_runs] obtain p where
    p: "buildPayload exampleCrypto () ''0x1234567890123456789012345678901234567890''
            ''1000'' ''eip155:8453'' ''https://blockrun.ai/api/v1/chat/completions''
            ''Test payment'' 300 None None = Inr p"
    and va: "ValidAfter (Authorization (Payload p)) = FormatInt (Now exampleCrypto - 600)"
    and vb: "ValidBefore (Authorization (Payload p)) = FormatInt (Now exampleCrypto + 300)"
    and ex: "0 \<le> sint (Now exampleCrypto) \<and> 0 \<le> sint (300 :: int64) \<longrightarrow>
                (\<exists>va vb. SetString10 (ValidAfter (Authorization (Payload p))) = Some va
                       \<and> SetString10 (ValidBefore (Authorization (Payload p))) = Some vb
                       \<and> va = sint (Now exampleCrypto) - 600
                       \<and> vb = sint (Now exampleCrypto) + sint (300 :: int64)
                       \<and> vb - va = sint (300 :: int64) + 600)"
    by blast
  from ex now have "SetString10 (ValidAfter (Authorization (Payload p))) = Some 1699999400"
    "SetString10 (ValidBefore (Authorization (Payload p))) = Some 1700000300"
    by auto
  with p va vb now(1) f1 f2 exampleCrypto_runs show ?thesis
    by auto
qed

lemma SetString10_Some_iff: "SetString10 s = Some n \<longleftrightarrow> base10Integer s n"
proof
  assume "SetString10 s = Some n"
  then show "base10Integer s n"
    unfolding SetString10_def base10Integer_def
    by (cases s) (auto simp: Let_def split: if_splits)
next
  assume "base10Integer s n"
  then obtain ds where ds: "ds \<noteq> []" "list_all isDigit ds"
    and s: "(s = ds \<or> s = CHR ''+'' # ds) \<and> n = int (digitsVal ds)
            \<or> s = CHR ''-'' # ds \<and> n = - int (digitsVal ds)"
    unfolding base10Integer_def by blast
  from ds have plus: "SetString10 (CHR ''+'' # ds) = Some (int (digitsVal ds))"
    by (simp add: SetString10_def)
  from s plus SetString10_digits [OF ds] show "SetString10 s = Some n"
    by auto
qed

lemma CreatePaymentPayload_invalid_amount:
  assumes "SetString10 amount = None"
  shows "CreatePaymentPayload cr key recipient amount network url desc mts extra ext =
           (case createNonce cr of
              Inl err \<Rightarrow> Inl err
            | Inr nonce \<Rightarrow> Inl (Errorf (''invalid amount: '' @ amount)))"
  using assms
  by (simp add: CreatePaymentPayload_def buildPayload_def Let_def split: sum.splits)

text \<open>
  C7. \<open>CreatePaymentPayload\<close> returns an error whenever the amount is not a base-10
  integer string, and an amount for which it returns a payload is a base-10 integer
  string whose value is not negative. The sign is not refused by the function's own
  check (\<open>SetString\<close> reads \<open>-5\<close>) but by the \<open>uint256\<close> check of the typed-data hash.
\<close>

theorem C7_amount_checked:
  "((\<forall>n. \<not> base10Integer amount n) \<longrightarrow>
      (\<exists>err. CreatePaymentPayload cr key recipient amount network url desc mts extra ext
               = Inl err))
   \<and> (\<forall>s. CreatePaymentPayload cr key recipient amount network url desc mts extra ext = Inr s
          \<longrightarrow> (\<exists>n. base10Integer amount n \<and> 0 \<le> n))"
proof (intro conjI impI allI)
  assume "\<forall>n. \<not> base10Integer amount n"
  then have "SetString10 amount = None"
    by (cases "SetString10 amount") (auto simp: SetString10_Some_iff)
  then show "\<exists>err. CreatePaymentPayload cr key recipient amount network url desc mts extra ext
               = Inl err"
    by (simp add: CreatePaymentPayload_invalid_amount split: sum.splits)
next
  fix s
  assume "CreatePaymentPayload cr key recipient amount network url desc mts extra ext = Inr s"
  from CreatePaymentPayload_Inr [OF this] obtain p where
    "buildPayload cr key recipient amount network url desc mts extra ext = Inr p"
    by blast
  from buildPayload_Inr [OF this] obtain nonce amountBig h where
    a: "SetString10 amount = Some amountBig"
    and h: "HashStruct_message cr
              \<lparr>msgFrom = PubkeyToAddressHex cr key, msgTo = recipient,
               msgValue = bigString amountBig,
               msgValidAfter = bigString (sint (Now cr - 600)),
               msgValidBefore = bigString (sint (Now cr + mts)),
               msgNonce = nonce\<rparr> = Inr h"
    by auto
  from HashStruct_message_Inr [OF h] have "0 \<le> amountBig"
    by (auto simp: parseInteger_uint256_bigString)
  with a show "\<exists>n. base10Integer amount n \<and> 0 \<le> n"
    by (auto simp: SetString10_Some_iff)
qed

lemma not_base10Integer_example: "\<not> base10Integer ''12.5'' n"
  using SetString10_Some_iff [of "''12.5''" n]
  by (simp add: SetString10_def isDigit_def)

theorem C7_amount_checked_witness:
  "(\<forall>n. \<not> base10Integer ''12.5'' n)
   \<and> CreatePaymentPayload exampleCrypto () ''0x1234567890123456789012345678901234567890''
          ''12.5'' ''eip155:8453'' ''https://blockrun.ai/api/v1/chat/completions''
          ''Test payment'' 300 None None = Inl (Errorf ''invalid amount: 12.5'')
   \<and> CreatePaymentPayload exampleCrypto () ''0x1234567890123456789012345678901234567890''
          ''-5'' ''eip155:8453'' ''https://blockrun.ai/api/v1/chat/completions''
          ''Test payment'' 300 None None
        = Inl (Errorf (''failed to hash message: invalid negative value for type ''
                       @ [CHR 0x27] @ ''uint256'' @ [CHR 0x27]))
   \<and> CreatePaymentPayload exampleCrypto () ''0x1234567890123456789012345678901234567890''
          ''1000'' ''eip155:8453'' ''https://blockrun.ai/api/v1/chat/completions''
          ''Test payment'' 300 None None = Inr ''e30=''
   \<and> (\<exists>n. base10Integer ''1000'' n \<and> 0 \<le> n)"
proof -
  have bad: "CreatePaymentPayload exampleCrypto () ''0x1234567890123456789012345678901234567890''
          ''12.5'' ''eip155:8453'' ''https://blockrun.ai/api/v1/chat/completions''
          ''Test payment'' 300 None None = Inl (Errorf ''invalid amount: 12.5'')"
    by (simp add: payload_eval exampleCrypto_def char_eval)
  have neg: "CreatePaymentPayload exampleCrypto () ''0x1234567890123456789012345678901234567890''
          ''-5'' ''eip155:8453'' ''https://blockrun.ai/api/v1/chat/completions''
          ''Test payment'' 300 None None
        = Inl (Errorf (''failed to hash message: invalid negative value for type ''
                       @ [CHR 0x27] @ ''uint256'' @ [CHR 0x27]))"
    by (simp add: payload_eval exampleCrypto_def char_eval)
  from C7_amount_checked [of "''1000''" exampleCrypto "()"
         "''0x1234567890123456789012345678901234567890''" "''eip155:8453''"
         "''https://blockrun.ai/api/v1/chat/completions''" "''Test payment''" 300 None None]
       exampleCrypto_runs
  have ok: "\<exists>n. base10Integer ''1000'' n \<and> 0 \<le> n"
    by blast
  from not_base10Integer_example bad neg exampleCrypto_runs ok show ?thesis
    by blast
qed

lemma usdcName_cases:
  "(\<forall>n. lookup extra ''name'' = Some (AString n) \<longrightarrow> usdcName extra = n)
   \<and> ((\<forall>n. lookup extra ''name'' \<noteq> Some (AString n)) \<longrightarrow> usdcName extra = ''USD Coin'')"
  by (auto simp: usdcName_def asString_def lookup_def split: option.splits any.splits)

lemma usdcVersion_cases:
  "(\<forall>n. lookup extra ''version'' = Some (AString n) \<longrightarrow> usdcVersion extra = n)
   \<and> ((\<forall>n. lookup extra ''version'' \<noteq> Some (AString n)) \<longrightarrow> usdcVersion extra = ''2'')"
  by (auto simp: usdcVersion_def asString_def lookup_def split: option.splits any.splits)

text \<open>
  C5 (as amended). In the payload built for a chosen option, the \<open>accepted\<close> field has
  the option's network, amount, payee and maximum timeout. Its scheme is always
  \<open>exact\<close> and its asset always the USDC contract on Base: neither is read from the
  option, so the field echoes the option exactly when the option has that scheme and that
  asset. Its extra map holds the resolved token name and version: the string entries
  \<open>name\<close> and \<open>version\<close> of the option's extra map, else \<open>USD Coin\<close> and \<open>2\<close>.
\<close>

theorem C5_accepted_field:
  assumes "payloadForOption cr key opt url desc ext = Inr p"
  shows "Accepted p =
           opt\<lparr>Scheme := ''exact'', Asset := USDCBase,
               Extra := Some [(''name'', AString (usdcName (Extra opt))),
                              (''version'', AString (usdcVersion (Extra opt)))]\<rparr>
         \<and> (\<forall>n. lookup (Extra opt) ''name'' = Some (AString n) \<longrightarrow> usdcName (Extra opt) = n)
         \<and> ((\<forall>n. lookup (Extra opt) ''name'' \<noteq> Some (AString n)) \<longrightarrow>
               usdcName (Extra opt) = ''USD Coin'')
         \<and> (\<forall>v. lookup (Extra opt) ''version'' = Some (AString v) \<longrightarrow> usdcVersion (Extra opt) = v)
         \<and> ((\<forall>v. lookup (Extra opt) ''version'' \<noteq> Some (AString v)) \<longrightarrow>
               usdcVersion (Extra opt) = ''2'')
         \<and> (Scheme opt = ''exact'' \<and> Asset opt = USDCBase \<longrightarrow>
               Accepted p =
                 opt\<lparr>Extra := Some [(''name'', AString (usdcName (Extra opt))),
                                    (''version'', AString (usdcVersion (Extra opt)))]\<rparr>)"
proof -
  from assms have "buildPayload cr key (PayTo opt) (Amount opt) (Network opt) url desc
                     (MaxTimeoutSeconds opt) (Extra opt) ext = Inr p"
    by (simp add: payloadForOption_def)
  from buildPayload_Inr [OF this]
  have acc: "Accepted p =
           opt\<lparr>Scheme := ''exact'', Asset := USDCBase,
               Extra := Some [(''name'', AString (usdcName (Extra opt))),
                              (''version'', AString (usdcVersion (Extra opt)))]\<rparr>"
    by auto
  then have same: "Scheme opt = ''exact'' \<and> Asset opt = USDCBase \<longrightarrow>
               Accepted p =
                 opt\<lparr>Extra := Some [(''name'', AString (usdcName (Extra opt))),
                                    (''version'', AString (usdcVersion (Extra opt)))]\<rparr>"
    by simp
  from acc same usdcName_cases [of "Extra opt"] usdcVersion_cases [of "Extra opt"]
  show ?thesis by blast
qed

lemma otherAssetOption_runs:
  "map_sum id Accepted
     (payloadForOption exampleCrypto () otherAssetOption
        ''https://blockrun.ai/api/v1/chat/completions'' ''Test payment'' None)
   = Inr (otherAssetOption\<lparr>Scheme := ''exact'', Asset := USDCBase,
            Extra := Some [(''name'', AString ''USD Coin''), (''version'', AString ''2'')]\<rparr>)"
  by (simp add: payloadForOption_def otherAssetOption_def payload_eval exampleCrypto_def char_eval)

text \<open>
  The claim as stated fails for an option with another scheme and another asset: the
  payload's \<open>accepted\<close> field names \<open>exact\<close> and the USDC contract instead.
\<close>

theorem C5_accepted_field_counterexample:
  "map_sum id (Asset \<circ> Accepted)
     (payloadForOption exampleCrypto () otherAssetOption
        ''https://blockrun.ai/api/v1/chat/completions'' ''Test payment'' None)
     = Inr ''0x833589fCD6eDb6E08f4c7C32D4f71b54bdA02913''
   \<and> Asset otherAssetOption = ''0x0000000000000000000000000000000000000001''
   \<and> map_sum id (Scheme \<circ> Accepted)
     (payloadForOption exampleCrypto () otherAssetOption
        ''https://blockrun.ai/api/v1/chat/completions'' ''Test payment'' None)
     = Inr ''exact''
   \<and> Scheme otherAssetOption = ''upto''"
  by (simp add: payloadForOption_def otherAssetOption_def payload_eval exampleCrypto_def
                USDCBase_def char_eval)

lemma namedTokenOption_runs:
  "\<exists>p. payloadForOption exampleCrypto () namedTokenOption
         ''https://blockrun.ai/api/v1/chat/completions'' ''Test payment'' None = Inr p"
  by (simp add: payloadForOption_def namedTokenOption_def payload_eval exampleCrypto_def char_eval)

theorem C5_accepted_field_witness:
  "\<exists>p. payloadForOption exampleCrypto () namedTokenOption
         ''https://blockrun.ai/api/v1/chat/completions'' ''Test payment'' None = Inr p
       \<and> Scheme namedTokenOption = ''exact'' \<and> Asset namedTokenOption = USDCBase
       \<and> lookup (Extra namedTokenOption) ''name'' = Some (AString ''USDC'')
       \<and> lookup (Extra namedTokenOption) ''version'' = Some (AString ''2'')
       \<and> Accepted p = namedTokenOption"
proof -
  from namedTokenOption_runs obtain p where
    p: "payloadForOption exampleCrypto () namedTokenOption
         ''https://blockrun.ai/api/v1/chat/completions'' ''Test payment'' None = Inr p"
    by blast
  have facts: "Scheme namedTokenOption = ''exact''" "Asset namedTokenOption = USDCBase"
    "lookup (Extra namedTokenOption) ''name'' = Some (AString ''USDC'')"
    "lookup (Extra namedTokenOption) ''version'' = Some (AString ''2'')"
    by (simp_all add: namedTokenOption_def USDCBase_def lookup_def)
  from C5_accepted_field [OF p] facts
  have "Accepted p = namedTokenOption\<lparr>Extra := Some [(''name'', AString ''USDC''),
                                                   (''version'', AString ''2'')]\<rparr>"
    by simp
  then have "Accepted p = namedTokenOption"
    by (simp add: namedTokenOption_def)
  with p facts show ?thesis by blast
qed

section \<open>ChatCompletion\<close>

text \<open>
  C9. A call of \<open>ChatCompletion\<close> with an empty model string or an empty list of messages
  returns a \<open>ValidationError\<close>; no request is handed to the transport, whatever the
  transport would answer, and the client is as before. Nothing retries the call: the
  result is returned at once.
\<close>

theorem C9_validation_before_network:
  "(model = '''' \<or> messages = [] \<longrightarrow>
      (\<exists>field msg. ChatCompletion w c sent model messages opts
                    = (c, sent, Inl (ValidationError field msg))))
   \<and> (model = '''' \<longrightarrow>
        ChatCompletion w c sent model messages opts
          = (c, sent, Inl (ValidationError ''model'' ''Model is required'')))
   \<and> (model \<noteq> '''' \<and> messages = [] \<longrightarrow>
        ChatCompletion w c sent model messages opts
          = (c, sent, Inl (ValidationError ''messages'' ''At least one message is required'')))"
  by (simp add: ChatCompletion_def)

section \<open>The payment round trip\<close>


lemma HeaderSet_first:
  "NewRequest w ''POST'' url body = Inr req0 \<Longrightarrow>
   HeaderSet req0 ''Content-Type'' ''application/json'' = firstRequest url body"
  by (auto simp: NewRequest_def HeaderSet_def firstRequest_def split: option.splits)




lemma requestWithPayment_alt:
  "requestWithPayment w c sent endpoint body =
     (case jsonMarshal w body of
        Inl err \<Rightarrow> (c, sent, Inl (Errorf (''failed to encode request body: '' @ err)))
      | Inr jsonBody \<Rightarrow>
      (case urlError w (apiURL c @ endpoint) of
        Some err \<Rightarrow> (c, sent, Inl (Errorf (''failed to create request: '' @ err)))
      | None \<Rightarrow>
      (case Do w sent (firstRequest (apiURL c @ endpoint) jsonBody) of
        Inl err \<Rightarrow> (c, sent @ [firstRequest (apiURL c @ endpoint) jsonBody],
                      Inl (Errorf (''request failed: '' @ err)))
      | Inr resp \<Rightarrow>
          if StatusCode resp = 402
          then handlePaymentAndRetry w c (sent @ [firstRequest (apiURL c @ endpoint) jsonBody])
                 (apiURL c @ endpoint) jsonBody resp
          else if StatusCode resp \<noteq> 200
          then (c, sent @ [firstRequest (apiURL c @ endpoint) jsonBody],
                Inl (APIError (StatusCode resp) (''API error: '' @ Body resp)))
          else (case jsonDecode_response w (Body resp) of
                  Inl err \<Rightarrow>
                    (c, sent @ [firstRequest (apiURL c @ endpoint) jsonBody],
                     Inl (Errorf (''failed to decode response: '' @ err)))
                | Inr chatResp \<Rightarrow>
                    (c, sent @ [firstRequest (apiURL c @ endpoint) jsonBody], Inr chatResp)))))"
proof (cases "jsonMarshal w body")
  case (Inl err)
  then show ?thesis by (simp add: requestWithPayment_def)
next
  case (Inr jsonBody)
  note body = this
  show ?thesis
  proof (cases "urlError w (apiURL c @ endpoint)")
    case (Some err)
    with body show ?thesis
      by (simp add: requestWithPayment_def NewRequest_def)
  next
    case None
    then have nr: "NewRequest w ''POST'' (apiURL c @ endpoint) jsonBody
                   = Inr \<lparr>Method = ''POST'', reqURL = apiURL c @ endpoint,
                          reqBody = jsonBody, reqHeader = []\<rparr>"
      by (simp add: NewRequest_def)
    note hs = HeaderSet_first [OF nr]
    from body None show ?thesis
      by (simp add: requestWithPayment_def Let_def nr hs)
  qed
qed








section \<open>Base64\<close>

lemma of_char_char_of_small: "n < 256 \<Longrightarrow> (of_char (char_of n) :: nat) = n"
  by (simp add: of_char_of take_bit_eq_mod)









section \<open>JSON texts\<close>

lemma hexChar_digit: "d < 16 \<Longrightarrow> isHexDigit (hexChar d) \<and> hexDigitVal (hexChar d) = d"
  unfolding isHexDigit_def hexDigitVal_def hexChar_def Let_def
  by (simp add: of_char_char_of_small)

lemma zero_hex: "isHexDigit CHR ''0'' \<and> hexDigitVal CHR ''0'' = 0"
  by (simp add: isHexDigit_def hexDigitVal_def)

lemma parseStringBody_escapeChar:
  assumes "(of_char c :: nat) < 128"
    and "parseStringBody rest = Some (s, t)"
  shows "parseStringBody (escapeChar c @ rest) = Some (c # s, t)"
proof -
  define n where "n = (of_char c :: nat)"
  have n: "n < 128" using assms(1) by (simp add: n_def)
  have hi: "n div 16 < 16" and lo: "n mod 16 < 16" using n by simp_all
  have chr: "char_of n = c" by (simp add: n_def)
  have val: "16 * (n div 16) + n mod 16 = n" by simp
  consider (q) "c = dquote" | (b) "c = backslash" | (nl) "c = CHR 0x0A" | (cr) "c = CHR 0x0D"
    | (tab) "c = CHR 0x09"
    | (u) "c \<noteq> dquote" "c \<noteq> backslash" "c \<noteq> CHR 0x0A" "c \<noteq> CHR 0x0D" "c \<noteq> CHR 0x09"
          "n < 32 \<or> c = CHR ''<'' \<or> c = CHR ''>'' \<or> c = CHR ''&''"
    | (raw) "c \<noteq> dquote" "c \<noteq> backslash" "c \<noteq> CHR 0x0A" "c \<noteq> CHR 0x0D" "c \<noteq> CHR 0x09"
          "\<not> (n < 32 \<or> c = CHR ''<'' \<or> c = CHR ''>'' \<or> c = CHR ''&'')"
    by blast
  then show ?thesis
  proof cases
    case q
    with assms(2) show ?thesis
      by (simp add: escapeChar_def unescape_def dquote_def backslash_def)
  next
    case b
    with assms(2) show ?thesis
      by (simp add: escapeChar_def unescape_def dquote_def backslash_def)
  next
    case nl
    with assms(2) show ?thesis
      by (simp add: escapeChar_def unescape_def dquote_def backslash_def)
  next
    case cr
    with assms(2) show ?thesis
      by (simp add: escapeChar_def unescape_def dquote_def backslash_def)
  next
    case tab
    with assms(2) show ?thesis
      by (simp add: escapeChar_def unescape_def dquote_def backslash_def)
  next
    case u
    then have e: "escapeChar c = [backslash, CHR ''u'', CHR ''0'', CHR ''0'',
                                  hexChar (n div 16), hexChar (n mod 16)]"
      by (simp add: escapeChar_def n_def Let_def)
    have "utf8 (16 * (n div 16) + n mod 16) = [c]"
      using n chr by (simp only: val utf8_def) simp
    with assms(2) hexChar_digit [OF hi] hexChar_digit [OF lo] zero_hex show ?thesis
      by (simp add: e dquote_def backslash_def)
  next
    case raw
    then have e: "escapeChar c = [c]"
      by (simp add: escapeChar_def n_def Let_def)
    from raw have "\<not> n < 32" by simp
    with raw assms(2) show ?thesis
      by (simp add: e n_def)
  qed
qed

lemma parseStringBody_quoted:
  "plain s \<Longrightarrow> parseStringBody (concat (map escapeChar s) @ dquote # rest) = Some (s, rest)"
proof (induction s)
  case Nil
  show ?case by simp
next
  case (Cons c s)
  then have c: "(of_char c :: nat) < 128" and s: "plain s"
    by (simp_all add: plain_def)
  from parseStringBody_escapeChar [OF c Cons.IH [OF s]] show ?case
    by simp
qed

lemma skipWs_Cons: "\<not> isWs c \<Longrightarrow> skipWs (c # cs) = c # cs"
  by (simp add: skipWs_def)

lemma validNumber_hd:
  assumes "validNumber lit"
  shows "\<exists>c cs. lit = c # cs \<and> (c = CHR ''-'' \<or> isDigit c)"
proof (cases lit)
  case Nil
  with assms show ?thesis by (simp add: validNumber_def)
next
  case (Cons c cs)
  show ?thesis
  proof (cases "c = CHR ''-''")
    case True
    with Cons show ?thesis by simp
  next
    case False
    with assms Cons have "takeWhile isDigit (c # cs) \<noteq> []"
      by (simp add: validNumber_def Let_def)
    then have "isDigit c" by (simp split: if_splits)
    with Cons show ?thesis by simp
  qed
qed

lemma takeWhile_number:
  assumes "list_all isNumChar lit" "okRest rest"
  shows "takeWhile isNumChar (lit @ rest) = lit" "dropWhile isNumChar (lit @ rest) = rest"
proof -
  from assms(2) have r: "takeWhile isNumChar rest = []" "dropWhile isNumChar rest = rest"
    by (cases rest; simp add: okRest_def)+
  from assms(1) have a: "\<And>x. x \<in> set lit \<Longrightarrow> isNumChar x"
    by (simp add: list_all_iff)
  from a r show "takeWhile isNumChar (lit @ rest) = lit" "dropWhile isNumChar (lit @ rest) = rest"
    by (simp_all add: takeWhile_append2 dropWhile_append2)
qed

lemma digit_not_special:
  assumes "c = CHR ''-'' \<or> isDigit c"
  shows "\<not> isWs c" "c \<noteq> dquote" "c \<noteq> CHR ''[''" "c \<noteq> CHR ''{''"
    "c \<noteq> CHR ''n''" "c \<noteq> CHR ''t''" "c \<noteq> CHR ''f''"
  using assms by (auto simp: isDigit_def isWs_def dquote_def)

lemma parseValue_number:
  assumes "validNumber lit" "list_all isNumChar lit" "okRest rest"
  shows "parseValue (Suc n) (lit @ rest) = Some (JNumber lit, rest)"
proof -
  from validNumber_hd [OF assms(1)] obtain c cs where
    lit: "lit = c # cs" and c: "c = CHR ''-'' \<or> isDigit c"
    by blast
  note d = digit_not_special [OF c]
  have sk: "skipWs (lit @ rest) = c # (cs @ rest)"
    using d(1) by (simp add: lit skipWs_Cons)
  have kw: "take 4 (c # cs @ rest) \<noteq> ''null''" "take 4 (c # cs @ rest) \<noteq> ''true''"
    "take 5 (c # cs @ rest) \<noteq> ''false''"
    using d(5,6,7) by (auto simp: take_Cons')
  have tk: "takeWhile isNumChar (c # cs @ rest) = lit" "dropWhile isNumChar (c # cs @ rest) = rest"
    using takeWhile_number [OF assms(2,3)] by (simp_all add: lit)
  show ?thesis
    using d(2,3,4) kw assms(1)
    by (simp only: parseValue.simps sk list.case tk if_False if_True)
qed

lemma parseValue_string:
  assumes "plain s"
  shows "parseValue (Suc n) (quoted s @ rest) = Some (JString s, rest)"
proof -
  have "\<not> isWs dquote" by (simp add: isWs_def dquote_def)
  then have sk: "skipWs (quoted s @ rest) = dquote # (concat (map escapeChar s) @ dquote # rest)"
    by (simp add: quoted_def skipWs_Cons)
  show ?thesis
    by (simp add: sk parseStringBody_quoted [OF assms])
qed

lemma parseValue_keyword:
  "parseValue (Suc n) (''null'' @ rest) = Some (JNull, rest)"
  "parseValue (Suc n) (''true'' @ rest) = Some (JBool True, rest)"
  "parseValue (Suc n) (''false'' @ rest) = Some (JBool False, rest)"
  by (simp_all add: skipWs_def isWs_def dquote_def)

lemma jsonPrint_start:
  assumes "wfJson v"
  shows "\<exists>c cs. jsonPrint v = c # cs \<and> \<not> isWs c \<and> c \<noteq> CHR '']'' \<and> c \<noteq> CHR ''}''"
proof (cases v)
  case (JNumber lit)
  with assms have "validNumber lit" by simp
  from validNumber_hd [OF this] obtain c cs where
    lit: "lit = c # cs" and c: "c = CHR ''-'' \<or> isDigit c"
    by blast
  from c have "c \<noteq> CHR '']'' \<and> c \<noteq> CHR ''}''"
    by (auto simp: isDigit_def)
  with digit_not_special(1) [OF c] lit JNumber show ?thesis by simp
qed (simp_all add: isWs_def quoted_def dquote_def)

lemma printElems_start:
  assumes "xs \<noteq> []" "list_all wfJson xs"
  shows "\<exists>c cs. printElems xs = c # cs \<and> \<not> isWs c \<and> c \<noteq> CHR '']''"
proof -
  from assms obtain x ys where xs: "xs = x # ys" and x: "wfJson x"
    by (cases xs) auto
  from jsonPrint_start [OF x] obtain c cs where
    "jsonPrint x = c # cs" "\<not> isWs c" "c \<noteq> CHR '']''"
    by blast
  then show ?thesis
    by (cases ys) (simp_all add: xs)
qed

lemma printMembers_start:
  assumes "kvs \<noteq> []"
  shows "\<exists>cs. printMembers kvs = dquote # cs"
proof -
  from assms obtain k v ys where "kvs = (k, v) # ys"
    by (cases kvs) auto
  then show ?thesis
    by (cases ys) (simp_all add: quoted_def)
qed

lemma separators:
  "skipWs (CHR '','' # s) = CHR '','' # s" "skipWs (CHR '']'' # s) = CHR '']'' # s"
  "skipWs (CHR ''}'' # s) = CHR ''}'' # s" "skipWs (CHR '':'' # s) = CHR '':'' # s"
  "skipWs (dquote # s) = dquote # s"
  "okRest (CHR '','' # s)" "okRest (CHR '']'' # s)" "okRest (CHR ''}'' # s)" "okRest []"
  by (simp_all add: skipWs_def isWs_def okRest_def isNumChar_def isDigit_def dquote_def)

declare parseValue.simps [simp del] parseElems.simps [simp del] parseMembers.simps [simp del]

lemma parse_print:
  "wfJson v \<longrightarrow>
     (\<forall>n rest. okRest rest \<longrightarrow> parseValue (cost v + n) (jsonPrint v @ rest) = Some (v, rest))"
  "xs \<noteq> [] \<and> list_all wfJson xs \<longrightarrow>
     (\<forall>n rest. parseElems (costs xs + n) (printElems xs @ CHR '']'' # rest) = Some (xs, rest))"
  "kvs \<noteq> [] \<and> list_all (\<lambda>kv. plain (fst kv) \<and> wfJson (snd kv)) kvs \<longrightarrow>
     (\<forall>n rest. parseMembers (costm kvs + n) (printMembers kvs @ CHR ''}'' # rest)
                = Some (kvs, rest))"
proof (induction v and xs and kvs rule: jsonPrint_printElems_printMembers.induct)
  case 1
  show ?case using parseValue_keyword(1) by simp
next
  case (2 b)
  show ?case using parseValue_keyword(2,3) by (cases b) simp_all
next
  case (3 lit)
  show ?case by (simp add: parseValue_number)
next
  case (4 s)
  show ?case by (simp add: parseValue_string)
next
  case (5 xs)
  show ?case
  proof (intro impI allI)
    fix n rest
    assume wf: "wfJson (JArray xs)"
    show "parseValue (cost (JArray xs) + n) (jsonPrint (JArray xs) @ rest)
          = Some (JArray xs, rest)"
    proof (cases "xs = []")
      case True
      then show ?thesis
        by (simp add: parseValue.simps skipWs_def isWs_def dquote_def)
    next
      case False
      with wf have ok: "xs \<noteq> [] \<and> list_all wfJson xs" by simp
      define f where "f = costs xs + n"
      define T where "T = printElems xs @ CHR '']'' # rest"
      from printElems_start [of xs] ok obtain c cs where
        st: "printElems xs = c # cs" "\<not> isWs c" "c \<noteq> CHR '']''"
        by blast
      from 5 ok have ih: "parseElems f T = Some (xs, rest)"
        unfolding f_def T_def by blast
      have sk: "skipWs T = c # (cs @ CHR '']'' # rest)"
        using st by (simp add: T_def skipWs_Cons)
      have opn: "skipWs (CHR ''['' # T) = CHR ''['' # T"
        by (simp add: skipWs_def isWs_def)
      have goal: "parseValue (Suc f) (CHR ''['' # T) = Some (JArray xs, rest)"
        using st(3) ih by (simp add: parseValue.simps opn sk dquote_def)
      then show ?thesis
        by (simp add: f_def T_def)
    qed
  qed
next
  case (6 kvs)
  show ?case
  proof (intro impI allI)
    fix n rest
    assume wf: "wfJson (JObject kvs)"
    show "parseValue (cost (JObject kvs) + n) (jsonPrint (JObject kvs) @ rest)
          = Some (JObject kvs, rest)"
    proof (cases "kvs = []")
      case True
      then show ?thesis
        by (simp add: parseValue.simps skipWs_def isWs_def dquote_def)
    next
      case False
      with wf have ok: "kvs \<noteq> [] \<and> list_all (\<lambda>kv. plain (fst kv) \<and> wfJson (snd kv)) kvs"
        by simp
      define f where "f = costm kvs + n"
      define T where "T = printMembers kvs @ CHR ''}'' # rest"
      from printMembers_start [OF False] obtain cs where
        st: "printMembers kvs = dquote # cs"
        by blast
      from 6 ok have ih: "parseMembers f T = Some (kvs, rest)"
        unfolding f_def T_def by blast
      have sk: "skipWs T = dquote # (cs @ CHR ''}'' # rest)"
        using st by (simp add: T_def separators)
      have opn: "skipWs (CHR ''{'' # T) = CHR ''{'' # T"
        by (simp add: skipWs_def isWs_def)
      have dq: "dquote \<noteq> CHR ''}''" "CHR ''{'' \<noteq> dquote" "CHR ''{'' \<noteq> CHR ''[''"
        by (simp_all add: dquote_def)
      have goal: "parseValue (Suc f) (CHR ''{'' # T) = Some (JObject kvs, rest)"
        using ih dq by (simp add: parseValue.simps opn sk)
      then show ?thesis
        by (simp add: f_def T_def)
    qed
  qed
next
  case 7
  show ?case by simp
next
  case (8 x)
  show ?case
  proof (intro impI allI)
    fix n rest
    assume "[x] \<noteq> [] \<and> list_all wfJson [x]"
    then have wf: "wfJson x" by simp
    define f where "f = cost x + n"
    from 8 wf separators(7) have "parseValue f (jsonPrint x @ CHR '']'' # rest)
                 = Some (x, CHR '']'' # rest)"
      unfolding f_def by blast
    then have "parseElems (Suc f) (jsonPrint x @ CHR '']'' # rest) = Some ([x], rest)"
      by (simp add: parseElems.simps separators)
    then show "parseElems (costs [x] + n) (printElems [x] @ CHR '']'' # rest) = Some ([x], rest)"
      by (simp add: f_def)
  qed
next
  case (9 x y ys)
  show ?case
  proof (intro impI allI)
    fix n rest
    assume a: "x # y # ys \<noteq> [] \<and> list_all wfJson (x # y # ys)"
    then have wf: "wfJson x" and wfs: "y # ys \<noteq> [] \<and> list_all wfJson (y # ys)"
      by simp_all
    define f where "f = costs (y # ys) + (cost x + n)"
    define T where "T = printElems (y # ys) @ CHR '']'' # rest"
    have f': "f = cost x + (costs (y # ys) + n)"
      by (simp add: f_def)
    from 9(1) wf separators(6)
    have v: "parseValue f (jsonPrint x @ CHR '','' # T) = Some (x, CHR '','' # T)"
      unfolding f' by blast
    from 9(2) wfs
    have r: "parseElems f T = Some (y # ys, rest)"
      unfolding f_def T_def by blast
    have "parseElems (Suc f) (jsonPrint x @ CHR '','' # T) = Some (x # y # ys, rest)"
      using v r by (simp add: parseElems.simps separators)
    then show "parseElems (costs (x # y # ys) + n) (printElems (x # y # ys) @ CHR '']'' # rest)
          = Some (x # y # ys, rest)"
      by (simp add: f_def T_def add.assoc add.left_commute)
  qed
next
  case 10
  show ?case by simp
next
  case (11 k v)
  show ?case
  proof (intro impI allI)
    fix n rest
    assume "[(k, v)] \<noteq> [] \<and> list_all (\<lambda>kv. plain (fst kv) \<and> wfJson (snd kv)) [(k, v)]"
    then have k: "plain k" and wf: "wfJson v" by simp_all
    define f where "f = cost v + n"
    define T where "T = CHR '':'' # jsonPrint v @ CHR ''}'' # rest"
    from 11 wf separators(8) have pv: "parseValue f (jsonPrint v @ CHR ''}'' # rest)
                 = Some (v, CHR ''}'' # rest)"
      unfolding f_def by blast
    have key: "parseStringBody (concat (map escapeChar k) @ dquote # T) = Some (k, T)"
      using parseStringBody_quoted [OF k] by simp
    have "parseMembers (Suc f) (dquote # concat (map escapeChar k) @ dquote # T)
          = Some ([(k, v)], rest)"
      using pv key
      by (simp add: parseMembers.simps separators) (simp add: T_def separators pv)
    then show "parseMembers (costm [(k, v)] + n) (printMembers [(k, v)] @ CHR ''}'' # rest)
          = Some ([(k, v)], rest)"
      by (simp add: f_def T_def quoted_def)
  qed
next
  case (12 k v m ms)
  show ?case
  proof (intro impI allI)
    fix n rest
    assume a: "(k, v) # m # ms \<noteq> []
               \<and> list_all (\<lambda>kv. plain (fst kv) \<and> wfJson (snd kv)) ((k, v) # m # ms)"
    then have k: "plain k" and wf: "wfJson v"
      and wfs: "m # ms \<noteq> [] \<and> list_all (\<lambda>kv. plain (fst kv) \<and> wfJson (snd kv)) (m # ms)"
      by simp_all
    define f where "f = costm (m # ms) + (cost v + n)"
    define tail where "tail = printMembers (m # ms) @ CHR ''}'' # rest"
    define T where "T = CHR '':'' # jsonPrint v @ CHR '','' # tail"
    have f': "f = cost v + (costm (m # ms) + n)"
      by (simp add: f_def)
    from 12(1) wf separators(6)
    have pv: "parseValue f (jsonPrint v @ CHR '','' # tail) = Some (v, CHR '','' # tail)"
      unfolding f' by blast
    from 12(2) wfs
    have r: "parseMembers f tail = Some (m # ms, rest)"
      unfolding f_def tail_def by blast
    have key: "parseStringBody (concat (map escapeChar k) @ dquote # T) = Some (k, T)"
      using parseStringBody_quoted [OF k] by simp
    have "parseMembers (Suc f) (dquote # concat (map escapeChar k) @ dquote # T)
          = Some ((k, v) # m # ms, rest)"
      using key
      by (simp add: parseMembers.simps separators) (simp add: T_def separators pv r)
    then show "parseMembers (costm ((k, v) # m # ms) + n)
            (printMembers ((k, v) # m # ms) @ CHR ''}'' # rest)
          = Some ((k, v) # m # ms, rest)"
      by (simp add: f_def T_def tail_def quoted_def add.assoc add.left_commute)
  qed
qed

lemma cost_le_length:
  "wfJson v \<longrightarrow> cost v \<le> length (jsonPrint v)"
  "list_all wfJson xs \<longrightarrow> costs xs \<le> 1 + length (printElems xs)"
  "list_all (\<lambda>kv. plain (fst kv) \<and> wfJson (snd kv)) kvs \<longrightarrow>
     costm kvs \<le> 1 + length (printMembers kvs)"
proof (induction v and xs and kvs rule: jsonPrint_printElems_printMembers.induct)
  case (3 lit)
  show ?case
  proof
    assume "wfJson (JNumber lit)"
    then have "validNumber lit" by simp
    from validNumber_hd [OF this] show "cost (JNumber lit) \<le> length (jsonPrint (JNumber lit))"
      by auto
  qed
qed (auto simp: quoted_def)


lemma parseValue_jsonPrint:
  assumes "wfJson v"
  shows "parseValue (length (jsonPrint v)) (jsonPrint v) = Some (v, [])"
proof -
  from cost_le_length(1) [of v] assms
  obtain n where n: "length (jsonPrint v) = cost v + n"
    using le_Suc_ex by blast
  from parse_print(1) [of v] assms separators(9)
  have "parseValue (cost v + n) (jsonPrint v @ []) = Some (v, [])"
    by blast
  then show ?thesis
    by (simp add: n)
qed








section \<open>Go values and structs as JSON\<close>















lemma validNumber_examples: "validNumber ''2''" "validNumber ''300''"
  by (simp_all add: validNumber_def validFrac_def isDigit_def)



section \<open>The example server\<close>

lemma DecodeString_brace:
  "DecodeString (CHR ''{'' # rest) = Inl ''illegal base64 data at input byte 0''"
proof -
  have v: "b64val CHR ''{'' = None"
    by (simp add: b64val_def)
  have "[0..<length (CHR ''{'' # rest)] = 0 # [1..<Suc (length rest)]"
    by (simp add: upt_conv_Cons del: upt_Suc)
  then show ?thesis
    by (simp add: DecodeString_def v decimal.simps digitChar_def char_eval del: upt_Suc)
qed

text \<open>
  A header value that begins with a brace: whatever the world, \<open>ParsePaymentRequired\<close>
  refuses it at the base64 step.
\<close>

lemma handlePaymentAndRetry_brace:
  assumes "paymentHeaderOf w resp = CHR ''{'' # rest"
  shows "handlePaymentAndRetry w c sent url body resp
         = (c, sent,
            Inl (PaymentError (''Failed to parse payment requirements: ''
                   @ ''failed to decode payment required header: ''
             @ ''illegal base64 data at input byte 0'')))"
    and "signedFor w c url resp = None"
proof -
  have p: "ParsePaymentRequired w (CHR ''{'' # rest)
           = Inl (Errorf (''failed to decode payment required header: ''
                          @ ''illegal base64 data at input byte 0''))"
    by (simp add: ParsePaymentRequired_def DecodeString_brace)
  from assms p show "handlePaymentAndRetry w c sent url body resp
         = (c, sent,
            Inl (PaymentError (''Failed to parse payment requirements: ''
                   @ ''failed to decode payment required header: ''
             @ ''illegal base64 data at input byte 0'')))"
    by (simp add: handlePaymentAndRetry_def asPaymentError_def)
  from assms p show "signedFor w c url resp = None"
    by (simp add: signedFor_def)
qed

lemma Marshal_any_map:
  "Marshal_any fc (AMap kvs)
   = (case fromAny fc (AMap kvs) of
        None \<Rightarrow> Inl ''json: unsupported value''
      | Some j \<Rightarrow> Inr (CHR ''{'' # tl (jsonPrint j)))"
  by (auto simp: Marshal_any_def split: option.split)

text \<open>
  C4, what the code does. With no \<open>payment-required\<close> header and a JSON body that has the
  key \<open>x402\<close>, the body is decoded and encoded again, and that JSON text is handed to
  \<open>ParsePaymentRequired\<close> as the header value. That function decodes base64 first; the
  text of a JSON object begins with a brace, which is no base64 character, so the call
  ends with a \<open>PaymentError\<close>: nothing is signed and no retry is sent. (Were the map not
  encodable, the header value would stay empty, and the error would be the one of a
  response without requirements.)
\<close>

theorem C4_body_challenge_fails:
  assumes "HeaderGet resp ''payment-required'' = ''''"
    and "Decode_map fc (Body resp) = Inr (Some respBody)"
    and "map_of respBody ''x402'' \<noteq> None"
  shows "handlePaymentAndRetry (goWorld fc w) c sent url body resp
         = (c, sent,
            Inl (PaymentError
                   (if fromAny fc (AMap respBody) = None
                    then ''402 response but no payment requirements found''
                    else ''Failed to parse payment requirements: ''
                         @ ''failed to decode payment required header: ''
                         @ ''illegal base64 data at input byte 0'')))
         \<and> signedFor (goWorld fc w) c url resp = None"
proof (cases "fromAny fc (AMap respBody)")
  case None
  then have "Marshal_any fc (AMap respBody) = Inl ''json: unsupported value''"
    by (simp add: Marshal_any_map del: fromAny.simps)
  with assms have "paymentHeaderOf (goWorld fc w) resp = ''''"
    by (simp add: paymentHeaderOf_def goWorld_def)
  with None show ?thesis
    by (simp add: handlePaymentAndRetry_def signedFor_def)
next
  case (Some j)
  then have "Marshal_any fc (AMap respBody) = Inr (CHR ''{'' # tl (jsonPrint j))"
    by (simp add: Marshal_any_map del: fromAny.simps)
  with assms have "paymentHeaderOf (goWorld fc w) resp = CHR ''{'' # tl (jsonPrint j)"
    by (simp add: paymentHeaderOf_def goWorld_def)
  from handlePaymentAndRetry_brace [OF this] Some show ?thesis
    by (simp del: fromAny.simps)
qed

lemma goWorld_exampleWorld: "goWorld exampleFloats (exampleWorld first second) = exampleWorld first second"
  by (simp add: goWorld_def exampleWorld_def)




lemma example_first:
  "requestWithPayment (exampleWorld first second) exampleClient [] ''/v1/chat/completions''
     (AMap [])
   = (if StatusCode first = 402
      then handlePaymentAndRetry (exampleWorld first second) exampleClient
             [firstRequest ''https://blockrun.ai/api/v1/chat/completions'' ''{}'']
             ''https://blockrun.ai/api/v1/chat/completions'' ''{}'' first
      else if StatusCode first \<noteq> 200
      then (exampleClient, [firstRequest ''https://blockrun.ai/api/v1/chat/completions'' ''{}''],
            Inl (APIError (StatusCode first) (''API error: '' @ Body first)))
      else (exampleClient, [firstRequest ''https://blockrun.ai/api/v1/chat/completions'' ''{}''],
            Inr (Body first)))"
  by (simp add: requestWithPayment_alt exampleWorld_def exampleClient_def Marshal_any_def)






theorem C9_validation_before_network_witness:
  "ChatCompletion (exampleWorld success success) exampleClient [] ''''
     [\<lparr>Role = ''user'', Content = ''Hello''\<rparr>] None
   = (exampleClient, [], Inl (ValidationError ''model'' ''Model is required''))
   \<and> ChatCompletion (exampleWorld success success) exampleClient [] ''openai/gpt-4o'' [] None
   = (exampleClient, [], Inl (ValidationError ''messages'' ''At least one message is required''))"
  using
    C9_validation_before_network [of "''''" "[\<lparr>Role = ''user'', Content = ''Hello''\<rparr>]"
      "exampleWorld success success" exampleClient "[]" None]
    C9_validation_before_network [of "''openai/gpt-4o''" "[]"
      "exampleWorld success success" exampleClient "[]" None]
  by simp

text \<open>The text of the body of \<open>bodyChallenge\<close>, and what the decoder makes of it.\<close>

lemma bodyChallenge_text:
  \<open>Body bodyChallenge
   = ''{"x402":true,"x402Version":2,"accepts":[{"scheme":"exact","network":"eip155:8453","amount":"1000000","asset":"0x833589fCD6eDb6E08f4c7C32D4f71b54bdA02913","payTo":"0x1234567890123456789012345678901234567890","maxTimeoutSeconds":300}]}''\<close>
  by (simp add: bodyChallenge_def exampleChallengeBody_def quoted_def escapeChar_def dquote_def backslash_def)

lemma example_decode:
  "Decode_map exampleFloats (Body bodyChallenge) = Inr (Some exampleChallengeMap)"
proof -
  have wf: "wfJson exampleChallengeBody"
    by (simp add: exampleChallengeBody_def plain_def validNumber_examples isNumChar_def
                  isDigit_def)
  have dec: "fromJSON_map exampleFloats exampleChallengeBody = Some (Some exampleChallengeMap)"
    by (simp add: fromJSON_map_def exampleChallengeBody_def exampleChallengeMap_def
                  decodedMap_def exampleFloats_def)
  from parseValue_jsonPrint [OF wf] dec show ?thesis
    by (simp add: Decode_map_def bodyChallenge_def)
qed

theorem C4_body_challenge_fails_witness:
  "requestWithPayment (exampleWorld bodyChallenge success) exampleClient []
     ''/v1/chat/completions'' (AMap [])
   = (exampleClient, [firstRequest ''https://blockrun.ai/api/v1/chat/completions'' ''{}''],
      Inl (PaymentError (''Failed to parse payment requirements: ''
             @ ''failed to decode payment required header: ''
             @ ''illegal base64 data at input byte 0'')))
   \<and> HeaderGet bodyChallenge ''payment-required'' = ''''
   \<and> Decode_map exampleFloats (Body bodyChallenge) = Inr (Some exampleChallengeMap)
   \<and> map_of exampleChallengeMap ''x402'' = Some (ABool True)"
proof -
  have a1: "HeaderGet bodyChallenge ''payment-required'' = ''''"
    by (simp add: bodyChallenge_def)
  have a3: "map_of exampleChallengeMap ''x402'' = Some (ABool True)"
    by (simp add: exampleChallengeMap_def)
  then have a3': "map_of exampleChallengeMap ''x402'' \<noteq> None"
    by simp
  have enc: "fromAny exampleFloats (AMap exampleChallengeMap) \<noteq> None"
    by (simp add: exampleChallengeMap_def exampleFloats_def)
  have s: "StatusCode bodyChallenge = 402"
    by (simp add: bodyChallenge_def)
  from C4_body_challenge_fails [OF a1 example_decode a3', of "exampleWorld bodyChallenge success"]
       enc a1 example_decode a3 show ?thesis
    by (simp add: example_first s goWorld_exampleWorld del: fromAny.simps)
qed

text \<open>A chat call on the example server that answers at once: the one request and its body.\<close>

lemma example_chat:
  \<open>ChatCompletion (exampleWorld success success) exampleClient [] ''openai/gpt-4o''
     [\<lparr>Role = ''user'', Content = ''Hello''\<rparr>] None
   = (exampleClient,
      [firstRequest ''https://blockrun.ai/api/v1/chat/completions''
         ''{"max_tokens":1024,"messages":[{"role":"user","content":"Hello"}],"model":"openai/gpt-4o"}''],
      Inr ''ok'')\<close>
  by (simp add: ChatCompletion_def chatBody_def setKey_def messageValue_def DefaultMaxTokens_def
                requestWithPayment_alt exampleWorld_def exampleClient_def success_def
                Marshal_any_def quoted_def escapeChar_def dquote_def backslash_def
                FormatInt_def bigString_def decimal.simps digitChar_def char_eval)

end
